theory Spec2Isabelle
  imports Complex_Main "HOL-Library.Sublist" "HOL-Library.AList"
begin

section \<open>JavaScript strings\<close>

text \<open>
  A JavaScript string is a sequence of UTF-16 code units. A code unit is modelled by its
  number: the program compares and copies code units and never does arithmetic on them.
  \<open>js\<close> embeds an ASCII literal, so \<open>js ''B10''\<close> is the string \<^verbatim>\<open>'B10'\<close>; the
  Korean literals of the source are written as lists of code units.
\<close>

type_synonym jsstring = "nat list"

definition js :: "string \<Rightarrow> jsstring" where
  "js s = map of_char s"

text \<open>
  The class \<^verbatim>\<open>\s\<close> of a regular expression, which is also what \<^verbatim>\<open>trim()\<close> strips: the
  white space and line terminator code units of ECMAScript.
\<close>

definition isSpace :: "nat \<Rightarrow> bool" where
  "isSpace c \<longleftrightarrow>
     (9 \<le> c \<and> c \<le> 13) \<or> c = 32 \<or> c = 160 \<or> c = 5760 \<or> (8192 \<le> c \<and> c \<le> 8202) \<or>
     c = 8232 \<or> c = 8233 \<or> c = 8239 \<or> c = 8287 \<or> c = 12288 \<or> c = 65279"

text \<open>\<^verbatim>\<open>s.replace(/\s/g, '')\<close>\<close>

definition removeSpaces :: "jsstring \<Rightarrow> jsstring" where
  "removeSpaces s = filter (\<lambda>c. \<not> isSpace c) s"

text \<open>\<^verbatim>\<open>s.trim()\<close>\<close>

definition trim :: "jsstring \<Rightarrow> jsstring" where
  "trim s = rev (dropWhile isSpace (rev (dropWhile isSpace s)))"

text \<open>
  \<^verbatim>\<open>s.toLowerCase()\<close> is a function of the language, defined by the Unicode case tables
  and sensitive to the context of a letter. It is not defined here: every function that
  lower-cases takes it as its first argument \<open>lc\<close>.
\<close>

type_synonym lowercase = "jsstring \<Rightarrow> jsstring"

text \<open>
  \<^verbatim>\<open>a.includes(b)\<close>: \<open>b\<close> occurs in \<open>a\<close> at some position. The search tries every start
  position of \<open>a\<close> in turn.
\<close>

fun includes_js :: "jsstring \<Rightarrow> jsstring \<Rightarrow> bool" where
  "includes_js [] b = (b = [])"
| "includes_js (x # xs) b = (prefix b (x # xs) \<or> includes_js xs b)"

section \<open>The catalog client: matching school names (read365.ts)\<close>

text \<open>A book entry of the catalog service; every field is optional.\<close>

record Read365Book =
  bookTitle :: "jsstring option"
  bookAuthor :: "jsstring option"
  schoolName :: "jsstring option"
  provName :: "jsstring option"
  bookIsbn :: "jsstring option"

text \<open>\<^verbatim>\<open>x || ''\<close> for an optional string.\<close>

definition orEmpty :: "jsstring option \<Rightarrow> jsstring" where
  "orEmpty x = (case x of None \<Rightarrow> [] | Some s \<Rightarrow> s)"

text \<open>
  The test of the loop of \<^verbatim>\<open>findSchoolBooks\<close> (lines 229, 235 and 237): both names lose
  their white space, are lower-cased, and one has to include the other.
\<close>

definition schoolNameMatches :: "lowercase \<Rightarrow> jsstring \<Rightarrow> jsstring \<Rightarrow> bool" where
  "schoolNameMatches lc bookSchool schoolName' =
     (let normalizedSchool = lc (removeSpaces schoolName');
          normalizedBookSchool = lc (removeSpaces bookSchool)
      in includes_js normalizedBookSchool normalizedSchool \<or>
         includes_js normalizedSchool normalizedBookSchool)"

text \<open>
  \<^verbatim>\<open>findSchoolBooks\<close> returns an object with exactly two properties, \<^verbatim>\<open>found\<close> and
  \<^verbatim>\<open>matchedSchool\<close>.
\<close>

record FindResult =
  found :: "Read365Book list"
  matchedSchool :: "jsstring option"

text \<open>
  The loop over the books. \<^verbatim>\<open>if (!matchedSchool)\<close> is also true for the empty string, so
  a first match whose name is empty does not stop a later match from becoming the display
  name.
\<close>

fun findLoop :: "lowercase \<Rightarrow> jsstring \<Rightarrow> Read365Book list \<Rightarrow> FindResult \<Rightarrow> FindResult" where
  "findLoop lc school [] acc = acc"
| "findLoop lc school (book # books) acc =
     (let bookSchool = orEmpty (schoolName book) in
      if schoolNameMatches lc bookSchool school
      then findLoop lc school books
             \<lparr>found = found acc @ [book],
              matchedSchool = (if matchedSchool acc = None \<or> matchedSchool acc = Some []
                               then Some bookSchool else matchedSchool acc)\<rparr>
      else findLoop lc school books acc)"

definition findSchoolBooks :: "lowercase \<Rightarrow> Read365Book list \<Rightarrow> jsstring \<Rightarrow> FindResult" where
  "findSchoolBooks lc books school =
     findLoop lc school books \<lparr>found = [], matchedSchool = None\<rparr>"

section \<open>The catalog client: requests and pages (read365.ts)\<close>

text \<open>
  \<^verbatim>\<open>REGION_CODE_MAP\<close>: the short and the official name of each of the 17 regions, in
  the order of the source (Seoul, Busan, Daegu, Incheon, Gwangju, Daejeon, Ulsan, Sejong,
  Gyeonggi, Gangwon, Chungbuk, Chungnam, Jeonbuk, Jeonnam, Gyeongbuk, Gyeongnam, Jeju).
\<close>

definition REGION_CODE_MAP :: "(jsstring \<times> jsstring) list" where
  "REGION_CODE_MAP =
    [([49436, 50872], js ''B10''),
     ([49436, 50872, 53945, 48324, 49884], js ''B10''),
     ([48512, 49328], js ''C10''),
     ([48512, 49328, 44305, 50669, 49884], js ''C10''),
     ([45824, 44396], js ''D10''),
     ([45824, 44396, 44305, 50669, 49884], js ''D10''),
     ([51064, 52380], js ''E10''),
     ([51064, 52380, 44305, 50669, 49884], js ''E10''),
     ([44305, 51452], js ''F10''),
     ([44305, 51452, 44305, 50669, 49884], js ''F10''),
     ([45824, 51204], js ''G10''),
     ([45824, 51204, 44305, 50669, 49884], js ''G10''),
     ([50872, 49328], js ''H10''),
     ([50872, 49328, 44305, 50669, 49884], js ''H10''),
     ([49464, 51333], js ''I10''),
     ([49464, 51333, 53945, 48324, 51088, 52824, 49884], js ''I10''),
     ([44221, 44592], js ''J10''),
     ([44221, 44592, 46020], js ''J10''),
     ([44053, 50896], js ''K10''),
     ([44053, 50896, 46020], js ''K10''),
     ([52649, 48513], js ''M10''),
     ([52649, 52397, 48513, 46020], js ''M10''),
     ([52649, 45224], js ''N10''),
     ([52649, 52397, 45224, 46020], js ''N10''),
     ([51204, 48513], js ''P10''),
     ([51204, 46972, 48513, 46020], js ''P10''),
     ([51204, 45224], js ''Q10''),
     ([51204, 46972, 45224, 46020], js ''Q10''),
     ([44221, 48513], js ''R10''),
     ([44221, 49345, 48513, 46020], js ''R10''),
     ([44221, 45224], js ''S10''),
     ([44221, 49345, 45224, 46020], js ''S10''),
     ([51228, 51452], js ''T10''),
     ([51228, 51452, 53945, 48324, 51088, 52824, 46020], js ''T10'')]"

definition MAJOR_REGION_CODES :: "jsstring list" where
  "MAJOR_REGION_CODES = map js
     [''B10'', ''C10'', ''D10'', ''E10'', ''F10'', ''G10'', ''H10'', ''I10'',
      ''J10'', ''K10'', ''M10'', ''N10'', ''P10'', ''Q10'', ''R10'', ''S10'', ''T10'']"

text \<open>
  \<^verbatim>\<open>REGION_CODE_MAP\<close> is a plain object, and \<^verbatim>\<open>REGION_CODE_MAP[regionName]\<close> also finds
  the members that every object inherits from \<^verbatim>\<open>Object.prototype\<close>. So the value looked
  up is a code of the table, or, for the name of an inherited function, that function,
  or, for \<^verbatim>\<open>__proto__\<close>, the prototype object. The inherited members are those of
  ECMAScript and its annex B.
\<close>

datatype provcode = Code jsstring | InheritedFunction jsstring | ObjectPrototype

definition inheritedFunctions :: "jsstring list" where
  "inheritedFunctions = map js
     [''constructor'', ''hasOwnProperty'', ''isPrototypeOf'', ''propertyIsEnumerable'',
      ''toLocaleString'', ''toString'', ''valueOf'', ''__defineGetter__'',
      ''__defineSetter__'', ''__lookupGetter__'', ''__lookupSetter__'']"

text \<open>
  \<^verbatim>\<open>REGION_CODE_MAP[regionName] || null\<close>. Every code of the table is a non-empty string,
  and a function and an object are true, so the result is null exactly when nothing is
  found.
\<close>

definition getProvCode :: "jsstring \<Rightarrow> provcode option" where
  "getProvCode regionName =
     (case map_of REGION_CODE_MAP regionName of
        Some c \<Rightarrow> Some (Code c)
      | None \<Rightarrow>
          if regionName \<in> set inheritedFunctions then Some (InheritedFunction regionName)
          else if regionName = js ''__proto__'' then Some ObjectPrototype
          else None)"

text \<open>
  What a rejected promise or a \<^verbatim>\<open>throw\<close> carries: \<^verbatim>\<open>new Error(`HTTP ${status}`)\<close>, the
  \<^verbatim>\<open>TypeError\<close> of reading \<^verbatim>\<open>length\<close> of \<^verbatim>\<open>undefined\<close>, or any other exception (a
  network failure, a malformed JSON body), kept by its text.
\<close>

datatype jserror = HttpError nat | UndefinedLength | Thrown jsstring

text \<open>The part of a \<^verbatim>\<open>fetch\<close> response the clients read.\<close>

record 'a HttpResponse =
  ok :: bool
  httpStatus :: nat
  json :: "jserror + 'a"

record Read365Data =
  allTotalCount :: "int option"
  totalPage :: "int option"
  bookList :: "Read365Book list option"

record Read365ApiResponse =
  apiStatus :: jsstring
  apiData :: "Read365Data option"

record Read365SearchResult =
  totalCount :: int
  totalPages :: int
  books :: "Read365Book list"

text \<open>
  The body of the POST request as \<^verbatim>\<open>JSON.stringify\<close> writes it, without its constant
  entries \<^verbatim>\<open>coverYn\<close> and \<^verbatim>\<open>facet\<close>. A property whose value is a function is left out
  of the text, and the prototype object is written as the empty object.
\<close>

datatype provtext = ProvString jsstring | ProvEmptyObject

record Payload =
  searchKeyword :: jsstring
  provCode :: "provtext option"
  page :: "nat option"
  rows :: "nat option"

definition stringifyProv :: "provcode \<Rightarrow> provtext option" where
  "stringifyProv v =
     (case v of
        Code c \<Rightarrow> Some (ProvString c)
      | InheritedFunction name \<Rightarrow> None
      | ObjectPrototype \<Rightarrow> Some ProvEmptyObject)"

text \<open>\<^verbatim>\<open>if (provCode)\<close>: neither null nor the empty string.\<close>

definition truthyProv :: "provcode option \<Rightarrow> bool" where
  "truthyProv prov \<longleftrightarrow> prov \<noteq> None \<and> prov \<noteq> Some (Code [])"

type_synonym read365fetch = "Payload \<Rightarrow> jserror + Read365ApiResponse HttpResponse"

text \<open>\<^verbatim>\<open>n || 0\<close> for an optional number.\<close>

definition orZero :: "int option \<Rightarrow> int" where
  "orZero x = (case x of None \<Rightarrow> 0 | Some n \<Rightarrow> n)"

text \<open>
  \<^verbatim>\<open>searchISBN\<close>: one request. A rejected fetch, a response that is not ok and a body
  that is not JSON all leave the function as an exception; a body whose status is not
  \<^verbatim>\<open>'OK'\<close> or that has no data gives the empty result.
\<close>

definition searchISBN ::
  "read365fetch \<Rightarrow> jsstring \<Rightarrow> provcode option \<Rightarrow> nat \<Rightarrow> nat \<Rightarrow> jserror + Read365SearchResult" where
  "searchISBN fetch isbn prov pg pageSize =
     (let payload = \<lparr>searchKeyword = isbn,
                     provCode = (case prov of None \<Rightarrow> None
                                 | Some v \<Rightarrow> if truthyProv prov then stringifyProv v else None),
                     page = (if pg > 1 then Some pg else None),
                     rows = (if pageSize \<noteq> 100 then Some pageSize else None)\<rparr>
      in case fetch payload of
           Inl e \<Rightarrow> Inl e
         | Inr response \<Rightarrow>
             if \<not> ok response then Inl (HttpError (httpStatus response))
             else (case json response of
                     Inl e \<Rightarrow> Inl e
                   | Inr body \<Rightarrow>
                       (case apiData body of
                          Some d \<Rightarrow>
                            if apiStatus body = js ''OK''
                            then Inr \<lparr>totalCount = orZero (allTotalCount d),
                                      totalPages = orZero (totalPage d),
                                      books = (case bookList d of None \<Rightarrow> [] | Some bs \<Rightarrow> bs)\<rparr>
                            else Inr \<lparr>totalCount = 0, totalPages = 0, books = []\<rparr>
                        | None \<Rightarrow> Inr \<lparr>totalCount = 0, totalPages = 0, books = []\<rparr>)))"

text \<open>
  The loop of \<^verbatim>\<open>searchISBNAllPages\<close>, from the page \<open>pg\<close> on with the books gathered so
  far. Beside the outcome it returns the page numbers it has asked \<^verbatim>\<open>searchISBN\<close> for, in
  order. The source's \<^verbatim>\<open>while (true)\<close> need not end, so the result is optional: \<open>None\<close>
  is the loop that runs forever.
\<close>

partial_function (option) allPagesLoop ::
  "read365fetch \<Rightarrow> jsstring \<Rightarrow> provcode option \<Rightarrow> Read365Book list \<Rightarrow> nat \<Rightarrow> nat list
     \<Rightarrow> (nat list \<times> (jserror + Read365Book list)) option" where
  "allPagesLoop fetch isbn prov allBooks pg asked =
     (case searchISBN fetch isbn prov pg 100 of
        Inl e \<Rightarrow> Some (asked @ [pg], Inl e)
      | Inr result \<Rightarrow>
          if books result = [] then Some (asked @ [pg], Inr allBooks)
          else if int pg \<ge> totalPages result then Some (asked @ [pg], Inr (allBooks @ books result))
          else allPagesLoop fetch isbn prov (allBooks @ books result) (pg + 1) (asked @ [pg]))"

definition searchISBNAllPages ::
  "read365fetch \<Rightarrow> jsstring \<Rightarrow> provcode option \<Rightarrow> (nat list \<times> (jserror + Read365Book list)) option" where
  "searchISBNAllPages fetch isbn prov = allPagesLoop fetch isbn prov [] 1 []"

text \<open>
  The first loop of \<^verbatim>\<open>searchISBNMultiRegion\<close>: a major region code is appended when the
  list does not have it yet and is shorter than \<^verbatim>\<open>maxRegions\<close>. \<^verbatim>\<open>includes\<close> compares
  by identity, so a code is never taken for an inherited member.
\<close>

fun addRegions :: "int \<Rightarrow> jsstring list \<Rightarrow> provcode list \<Rightarrow> provcode list" where
  "addRegions maxRegions [] searchRegions = searchRegions"
| "addRegions maxRegions (code # codes) searchRegions =
     addRegions maxRegions codes
       (if Code code \<notin> set searchRegions \<and> int (length searchRegions) < maxRegions
        then searchRegions @ [Code code] else searchRegions)"

text \<open>
  The list of regions to search: what the lookup of the primary region gives, when it
  gives something, first.
\<close>

definition searchRegionsOf :: "jsstring option \<Rightarrow> int \<Rightarrow> provcode list" where
  "searchRegionsOf primaryRegion maxRegions =
     addRegions maxRegions MAJOR_REGION_CODES
       (case primaryRegion of
          None \<Rightarrow> []
        | Some r \<Rightarrow> if r = [] then [] else (case getProvCode r of None \<Rightarrow> [] | Some c \<Rightarrow> [c]))"

text \<open>What \<^verbatim>\<open>searchISBNMultiRegion\<close> returns: \<^verbatim>\<open>totalCount\<close> and \<^verbatim>\<open>books\<close>.\<close>

record MultiRegionResult =
  mrTotalCount :: nat
  mrBooks :: "Read365Book list"

text \<open>
  The second loop: every region is searched through all its pages; an exception of one
  region is caught (and logged), and the loop goes on with the next region. Beside the
  result so far the loop carries the requests made, as pairs of region and page number.
\<close>

fun regionLoop ::
  "read365fetch \<Rightarrow> jsstring \<Rightarrow> provcode list \<Rightarrow> MultiRegionResult \<times> (provcode \<times> nat) list
     \<Rightarrow> (MultiRegionResult \<times> (provcode \<times> nat) list) option" where
  "regionLoop fetch isbn [] acc = Some acc"
| "regionLoop fetch isbn (regionCode # regions) acc =
     (case searchISBNAllPages fetch isbn (Some regionCode) of
        None \<Rightarrow> None
      | Some (asked, outcome) \<Rightarrow>
          regionLoop fetch isbn regions
            (case outcome of
               Inr bs \<Rightarrow> (\<lparr>mrTotalCount = mrTotalCount (fst acc) + length bs,
                            mrBooks = mrBooks (fst acc) @ bs\<rparr>,
                          snd acc @ map (Pair regionCode) asked)
             | Inl e \<Rightarrow> (fst acc, snd acc @ map (Pair regionCode) asked)))"

definition searchISBNMultiRegion ::
  "read365fetch \<Rightarrow> jsstring \<Rightarrow> jsstring option \<Rightarrow> int
     \<Rightarrow> (MultiRegionResult \<times> (provcode \<times> nat) list) option" where
  "searchISBNMultiRegion fetch isbn primaryRegion maxRegions =
     regionLoop fetch isbn (searchRegionsOf primaryRegion maxRegions)
       (\<lparr>mrTotalCount = 0, mrBooks = []\<rparr>, [])"

section \<open>The resolver client (aladin.ts)\<close>

text \<open>
  \<^verbatim>\<open>normalizeTitle\<close>, first replacement: \<^verbatim>\<open>/[(\[][^)\]]*[)\]]/g\<close> becomes a space. A match
  starts at an opening bracket and ends at the first closing bracket after it; an opening
  bracket with no closing bracket after it stays.
\<close>

definition isOpen :: "nat \<Rightarrow> bool" where
  "isOpen c \<longleftrightarrow> c = 40 \<or> c = 91"

definition isClose :: "nat \<Rightarrow> bool" where
  "isClose c \<longleftrightarrow> c = 41 \<or> c = 93"

function replaceBrackets :: "jsstring \<Rightarrow> jsstring" where
  "replaceBrackets [] = []"
| "replaceBrackets (c # cs) =
     (if isOpen c \<and> list_ex isClose cs
      then 32 # replaceBrackets (tl (dropWhile (\<lambda>d. \<not> isClose d) cs))
      else c # replaceBrackets cs)"
  by pat_completeness auto
termination
  by (relation "measure length")
     (auto simp: less_Suc_eq_le intro: order_trans [OF diff_le_self length_dropWhile_le])

text \<open>Second replacement: \<^verbatim>\<open>/[.:;,\-_]/g\<close> becomes a space.\<close>

definition isPunct :: "nat \<Rightarrow> bool" where
  "isPunct c \<longleftrightarrow> c = 46 \<or> c = 58 \<or> c = 59 \<or> c = 44 \<or> c = 45 \<or> c = 95"

definition replacePunct :: "jsstring \<Rightarrow> jsstring" where
  "replacePunct s = map (\<lambda>c. if isPunct c then 32 else c) s"

text \<open>Third replacement: \<^verbatim>\<open>/\s+/g\<close>, a run of white space, becomes one space.\<close>

function collapseSpaces :: "jsstring \<Rightarrow> jsstring" where
  "collapseSpaces [] = []"
| "collapseSpaces (c # cs) =
     (if isSpace c then 32 # collapseSpaces (dropWhile isSpace cs)
      else c # collapseSpaces cs)"
  by pat_completeness auto
termination
  by (relation "measure length") (auto intro: le_imp_less_Suc length_dropWhile_le)

definition normalizeTitle :: "jsstring \<Rightarrow> jsstring" where
  "normalizeTitle title = trim (collapseSpaces (replacePunct (replaceBrackets title)))"

record AladinBook =
  abTitle :: "jsstring option"
  abAuthor :: "jsstring option"
  abIsbn13 :: "jsstring option"
  abPublisher :: "jsstring option"

record AladinResponse =
  item :: "AladinBook list option"

text \<open>The two query parameters that vary; the six others are constants.\<close>

record AladinParams =
  TTBKey :: jsstring
  Query :: jsstring

type_synonym aladinfetch = "AladinParams \<Rightarrow> jserror + AladinResponse HttpResponse"

text \<open>
  The texts the program writes into a result or a reason, each kept as its template and
  the values put into it. In the order of the constructors:
  \<^item> the empty string;
  \<^item> the four errors of \<^verbatim>\<open>searchISBNByTitleAuthor\<close>: empty title, no search result, the
    best match has an empty isbn, similarity below the threshold (with
    \<^verbatim>\<open>bestScore.toFixed(2)\<close>);
  \<^item> \<^verbatim>\<open>'unknown'\<close>, and the reason "Aladin: ISBN not confirmed: <error>";
  \<^item> the reason "Aladin error: <exception>";
  \<^item> the reason "<n> schools of the same name matched: <names joined by ', '>";
  \<^item> the reason "no book registered in the major regions";
  \<^item> the reason "not at <school> (other schools hold <totalCount>)", with the optional
    suffix "<candidateCount> versions of the same title exist, enter the title more
    exactly";
  \<^item> the reason "Read365 search error: <exception>".
\<close>

datatype message =
    NoReason
  | EmptyTitle
  | NoSearchResults
  | IsbnEmpty
  | BelowThreshold rat
  | Unknown
  | IsbnUnconfirmed message
  | AladinError jserror
  | SameNameSchools nat "jsstring list"
  | NoBooksInRegions
  | NotAtSchool jsstring nat "nat option"
  | Read365Error jserror

record IsbnSearchResult =
  isbn13 :: "jsstring option"
  error :: "message option"
  candidateCount :: nat

text \<open>
  A score is a double, and a double is a rational number; doubles compare as their values
  do. The arithmetic of doubles is not defined here: \<open>weigh t a\<close> stands for the double
  that JavaScript computes as \<^verbatim>\<open>0.7 * (t / 100) + 0.3 * (a / 100)\<close> for two whole numbers
  of percent, and every function that scores takes it as an argument. \<open>ratio\<close> is
  \<^verbatim>\<open>Fuzzball.token_set_ratio\<close>, a function of the fuzzball library, which returns a whole
  number of percent.
\<close>

type_synonym weighing = "nat \<Rightarrow> nat \<Rightarrow> rat"

text \<open>
  The score of one candidate, as the loop body computes it: the author counts for
  nothing when the trimmed author of the query is empty.
\<close>

definition candidateScore ::
  "(jsstring \<Rightarrow> jsstring \<Rightarrow> nat) \<Rightarrow> weighing \<Rightarrow> jsstring \<Rightarrow> jsstring \<Rightarrow> AladinBook \<Rightarrow> rat" where
  "candidateScore ratio weigh needleTitle needleAuthor it =
     (let candTitle = trim (orEmpty (abTitle it));
          candAuthor = trim (orEmpty (abAuthor it));
          titlePercent = ratio needleTitle candTitle;
          authorPercent = (if needleAuthor \<noteq> [] then ratio needleAuthor candAuthor else 0)
      in weigh titlePercent authorPercent)"

text \<open>The loop that keeps the first candidate of the highest score.\<close>

fun bestLoop ::
  "(jsstring \<Rightarrow> jsstring \<Rightarrow> nat) \<Rightarrow> weighing \<Rightarrow> jsstring \<Rightarrow> jsstring \<Rightarrow> AladinBook list
     \<Rightarrow> AladinBook option \<times> rat \<Rightarrow> AladinBook option \<times> rat" where
  "bestLoop ratio weigh needleTitle needleAuthor [] acc = acc"
| "bestLoop ratio weigh needleTitle needleAuthor (it # items) acc =
     (let score = candidateScore ratio weigh needleTitle needleAuthor it in
      bestLoop ratio weigh needleTitle needleAuthor items
        (if score > snd acc then (Some it, score) else acc))"

text \<open>
  \<^verbatim>\<open>searchISBNByTitleAuthor\<close>. The first component lists the requests sent to the
  resolver: none when the title is the empty string, one otherwise.
\<close>

definition searchISBNByTitleAuthor ::
  "aladinfetch \<Rightarrow> (jsstring \<Rightarrow> jsstring \<Rightarrow> nat) \<Rightarrow> weighing \<Rightarrow> jsstring \<Rightarrow> jsstring \<Rightarrow> jsstring
     \<Rightarrow> rat \<Rightarrow> AladinParams list \<times> (jserror + IsbnSearchResult)" where
  "searchISBNByTitleAuthor fetch ratio weigh ttbKey title author threshold =
     (if title = [] then ([], Inr \<lparr>isbn13 = None, error = Some EmptyTitle, candidateCount = 0\<rparr>)
      else
        let params = \<lparr>TTBKey = ttbKey, Query = normalizeTitle title\<rparr> in
        ([params],
         case fetch params of
           Inl e \<Rightarrow> Inl e
         | Inr response \<Rightarrow>
             if \<not> ok response then Inl (HttpError (httpStatus response))
             else (case json response of
                     Inl e \<Rightarrow> Inl e
                   | Inr body \<Rightarrow>
                       let items = (case item body of None \<Rightarrow> [] | Some its \<Rightarrow> its) in
                       if items = []
                       then Inr \<lparr>isbn13 = None, error = Some NoSearchResults, candidateCount = 0\<rparr>
                       else
                         let (best, bestScore) =
                               bestLoop ratio weigh (trim title) (trim author) items (None, - 1)
                         in
                         (case best of
                            Some b \<Rightarrow>
                              if bestScore \<ge> threshold
                              then (let isbn = trim (orEmpty (abIsbn13 b)) in
                                    if isbn \<noteq> []
                                    then Inr \<lparr>isbn13 = Some isbn, error = None,
                                              candidateCount = length items\<rparr>
                                    else Inr \<lparr>isbn13 = None, error = Some IsbnEmpty,
                                              candidateCount = length items\<rparr>)
                              else Inr \<lparr>isbn13 = None, error = Some (BelowThreshold bestScore),
                                        candidateCount = length items\<rparr>
                          | None \<Rightarrow> Inr \<lparr>isbn13 = None, error = Some (BelowThreshold bestScore),
                                           candidateCount = length items\<rparr>))))"

section \<open>The result cache (cache.ts)\<close>

record ISBNResult =
  cIsbn13 :: "jsstring option"
  cError :: "message option"

record SearchResult =
  sExists :: bool
  itemCount :: nat
  sMatchedSchool :: "jsstring option"
  sError :: "message option"

record CacheStats =
  isbnHits :: nat
  isbnMisses :: nat
  searchHits :: nat
  searchMisses :: nat
  isbnCacheSize :: nat
  searchCacheSize :: nat

definition normalizeKey :: "lowercase \<Rightarrow> jsstring \<Rightarrow> jsstring" where
  "normalizeKey lc text = removeSpaces (lc text)"

definition makeISBNKey :: "lowercase \<Rightarrow> jsstring \<Rightarrow> jsstring \<Rightarrow> jsstring" where
  "makeISBNKey lc title author = normalizeKey lc title @ js ''|'' @ normalizeKey lc author"

definition makeSearchKey :: "lowercase \<Rightarrow> jsstring \<Rightarrow> jsstring \<Rightarrow> jsstring" where
  "makeSearchKey lc school isbn = normalizeKey lc school @ js ''|'' @ isbn"

text \<open>
  A JavaScript \<^verbatim>\<open>Map\<close> is a list of entries in insertion order; \<^verbatim>\<open>set\<close> on a key that
  is present replaces the value in place, which is \<^const>\<open>AList.update\<close>, and \<^verbatim>\<open>size\<close>
  counts the keys.
\<close>

record ResultCache =
  isbnCache :: "(jsstring \<times> ISBNResult) list"
  searchCache :: "(jsstring \<times> SearchResult) list"
  stats :: CacheStats

definition mapSize :: "('k \<times> 'v) list \<Rightarrow> nat" where
  "mapSize m = length (remdups (map fst m))"

definition emptyStats :: CacheStats where
  "emptyStats = \<lparr>isbnHits = 0, isbnMisses = 0, searchHits = 0, searchMisses = 0,
                  isbnCacheSize = 0, searchCacheSize = 0\<rparr>"

definition newCache :: ResultCache where
  "newCache = \<lparr>isbnCache = [], searchCache = [], stats = emptyStats\<rparr>"

definition getISBN ::
  "lowercase \<Rightarrow> ResultCache \<Rightarrow> jsstring \<Rightarrow> jsstring \<Rightarrow> ISBNResult option \<times> ResultCache" where
  "getISBN lc c title author =
     (case map_of (isbnCache c) (makeISBNKey lc title author) of
        Some r \<Rightarrow> (Some r, c\<lparr>stats := (stats c)\<lparr>isbnHits := isbnHits (stats c) + 1\<rparr>\<rparr>)
      | None \<Rightarrow> (None, c\<lparr>stats := (stats c)\<lparr>isbnMisses := isbnMisses (stats c) + 1\<rparr>\<rparr>))"

definition setISBN ::
  "lowercase \<Rightarrow> ResultCache \<Rightarrow> jsstring \<Rightarrow> jsstring \<Rightarrow> jsstring option \<Rightarrow> message option
     \<Rightarrow> ResultCache" where
  "setISBN lc c title author isbn err =
     (let m = AList.update (makeISBNKey lc title author) \<lparr>cIsbn13 = isbn, cError = err\<rparr> (isbnCache c)
      in c\<lparr>isbnCache := m, stats := (stats c)\<lparr>isbnCacheSize := mapSize m\<rparr>\<rparr>)"

definition getSearch ::
  "lowercase \<Rightarrow> ResultCache \<Rightarrow> jsstring \<Rightarrow> jsstring \<Rightarrow> SearchResult option \<times> ResultCache" where
  "getSearch lc c school isbn =
     (case map_of (searchCache c) (makeSearchKey lc school isbn) of
        Some r \<Rightarrow> (Some r, c\<lparr>stats := (stats c)\<lparr>searchHits := searchHits (stats c) + 1\<rparr>\<rparr>)
      | None \<Rightarrow> (None, c\<lparr>stats := (stats c)\<lparr>searchMisses := searchMisses (stats c) + 1\<rparr>\<rparr>))"

definition setSearch ::
  "lowercase \<Rightarrow> ResultCache \<Rightarrow> jsstring \<Rightarrow> jsstring \<Rightarrow> bool \<Rightarrow> nat \<Rightarrow> jsstring option
     \<Rightarrow> message option \<Rightarrow> ResultCache" where
  "setSearch lc c school isbn ex n matched err =
     (let m = AList.update (makeSearchKey lc school isbn)
                \<lparr>sExists = ex, itemCount = n, sMatchedSchool = matched, sError = err\<rparr>
                (searchCache c)
      in c\<lparr>searchCache := m, stats := (stats c)\<lparr>searchCacheSize := mapSize m\<rparr>\<rparr>)"

section \<open>The job store (store.ts) and the spreadsheet rows (excel.ts)\<close>

text \<open>
  The four columns of an input row are named as \<^verbatim>\<open>processVerification\<close> names them when
  it takes a row apart: school, title, author, publisher.
\<close>

record BookRow =
  school :: jsstring
  title :: jsstring
  author :: jsstring
  publisher :: jsstring

text \<open>The two marks of the exists column: the check mark and the cross.\<close>

datatype ExistsMark = Present | Absent

text \<open>A result row: the four input columns, then ISBN13, searched school, exists, reason.\<close>

record ResultRow =
  rSchool :: jsstring
  rTitle :: jsstring
  rAuthor :: jsstring
  rPublisher :: jsstring
  ISBN13 :: jsstring
  searchSchool :: jsstring
  existsMark :: ExistsMark
  reason :: message

datatype JobStatus = Pending | Running | Completed | Failed

text \<open>
  The texts of \<^verbatim>\<open>job.message\<close>: "starting", "processing: i/n - <first 20 code units of
  the title>...", "done, n books processed", "error: <exception>".
\<close>

datatype JobMessage =
    StartMessage
  | ProgressMessage nat nat jsstring
  | DoneMessage nat
  | ErrorMessage jserror

text \<open>A job, without its two time stamps (the wall clock is not modelled).\<close>

record Job =
  jobId :: jsstring
  status :: JobStatus
  progress :: nat
  total :: nat
  jobMessage :: JobMessage
  resultFile :: "jsstring option"
  inputData :: "BookRow list"
  results :: "ResultRow list"
  region :: jsstring
  schoolLevel :: jsstring

record UploadedFile =
  fileId :: jsstring
  filename :: jsstring
  fileData :: "BookRow list"
  totalRows :: nat

text \<open>
  The state of the process: the cache, the two maps of the store, and the requests sent
  so far to the resolver and (as ISBN, region code and page number) to the catalog.
\<close>

record World =
  cache :: ResultCache
  jobs :: "(jsstring \<times> Job) list"
  uploadedFiles :: "(jsstring \<times> UploadedFile) list"
  aladinLog :: "AladinParams list"
  read365Log :: "(jsstring \<times> provcode \<times> nat) list"

definition getJob :: "World \<Rightarrow> jsstring \<Rightarrow> Job option" where
  "getJob w j = map_of (jobs w) j"

definition setJob :: "Job \<Rightarrow> World \<Rightarrow> World" where
  "setJob job w = w\<lparr>jobs := AList.update (jobId job) job (jobs w)\<rparr>"

definition getUploadedFile :: "World \<Rightarrow> jsstring \<Rightarrow> UploadedFile option" where
  "getUploadedFile w f = map_of (uploadedFiles w) f"

definition setUploadedFile :: "UploadedFile \<Rightarrow> World \<Rightarrow> World" where
  "setUploadedFile file w = w\<lparr>uploadedFiles := AList.update (fileId file) file (uploadedFiles w)\<rparr>"

text \<open>
  The upload route, from the parsed rows on: an empty sheet is answered with status 400,
  any other is stored with its number of rows.
\<close>

definition upload :: "World \<Rightarrow> jsstring \<Rightarrow> jsstring \<Rightarrow> BookRow list \<Rightarrow> nat + World" where
  "upload w newId name parsed =
     (if length parsed = 0 then Inl 400
      else Inr (setUploadedFile
                  \<lparr>fileId = newId, filename = name, fileData = parsed, totalRows = length parsed\<rparr> w))"

section \<open>The verification engine (the verify route)\<close>

text \<open>
  What comes from outside the repository: the lower-casing and the double arithmetic of
  the language, the similarity of the library, and the two services.
\<close>

record Env =
  toLowerCase :: lowercase
  weightedScore :: weighing
  tokenSetRatio :: "jsstring \<Rightarrow> jsstring \<Rightarrow> nat"
  aladinFetch :: aladinfetch
  read365Fetch :: read365fetch

text \<open>The double that the literal \<^verbatim>\<open>0.6\<close> denotes.\<close>

definition threshold06 :: rat where
  "threshold06 = 5404319552844595 / 9007199254740992"

text \<open>\<^verbatim>\<open>if (x)\<close> for an optional string: neither null nor empty.\<close>

definition truthy :: "jsstring option \<Rightarrow> bool" where
  "truthy x \<longleftrightarrow> x \<noteq> None \<and> x \<noteq> Some []"

text \<open>
  Step 1 of the loop body (lines 98 to 119): the ISBN from the cache or from the resolver.
  It returns the new state and the variables \<^verbatim>\<open>isbn13\<close>, \<^verbatim>\<open>candidateCount\<close> and
  \<^verbatim>\<open>reason\<close>.
\<close>

definition resolveIsbn ::
  "Env \<Rightarrow> jsstring \<Rightarrow> World \<Rightarrow> BookRow \<Rightarrow> World \<times> jsstring option \<times> nat \<times> message" where
  "resolveIsbn env ttbKey w row =
     (let (cachedISBN, c1) = getISBN (toLowerCase env) (cache w) (title row) (author row) in
      case cachedISBN of
        Some cached \<Rightarrow>
          (w\<lparr>cache := c1\<rparr>, cIsbn13 cached, 0,
           (case cError cached of
              Some m \<Rightarrow> if m \<noteq> NoReason then m else NoReason
            | None \<Rightarrow> NoReason))
      | None \<Rightarrow>
          (case searchISBNByTitleAuthor (aladinFetch env) (tokenSetRatio env)
                  (weightedScore env) ttbKey (title row) (author row) threshold06 of
             (sent, Inr result) \<Rightarrow>
               (w\<lparr>cache := setISBN (toLowerCase env) c1 (title row) (author row)
                              (isbn13 result) (error result),
                  aladinLog := aladinLog w @ sent\<rparr>,
                isbn13 result, candidateCount result,
                (if \<not> truthy (isbn13 result)
                 then IsbnUnconfirmed
                        (case error result of
                           Some m \<Rightarrow> if m \<noteq> NoReason then m else Unknown
                         | None \<Rightarrow> Unknown)
                 else NoReason))
           | (sent, Inl err) \<Rightarrow>
               (w\<lparr>cache := setISBN (toLowerCase env) c1 (title row) (author row) None
                              (Some (AladinError err)),
                  aladinLog := aladinLog w @ sent\<rparr>,
                None, 0, AladinError err)))"

text \<open>
  The caller takes three properties from the object that \<^verbatim>\<open>findSchoolBooks\<close> returns:
  \<^verbatim>\<open>found\<close>, \<^verbatim>\<open>matchedSchool\<close> and \<^verbatim>\<open>matchedSchools\<close>. The object has no property of
  the third name, so that variable is \<^verbatim>\<open>undefined\<close>.
\<close>

definition matchedSchools :: "FindResult \<Rightarrow> jsstring list option" where
  "matchedSchools r = None"

text \<open>
  Step 2 (lines 121 to 158): the holding from the cache or from the catalog. It returns
  the new state and the variables \<^verbatim>\<open>existsMark\<close>, \<^verbatim>\<open>matchedSchool\<close> and \<^verbatim>\<open>reason\<close>.
  Reading \<^verbatim>\<open>matchedSchools.length\<close> of an undefined \<^verbatim>\<open>matchedSchools\<close> throws inside the
  \<^verbatim>\<open>try\<close>; the \<^verbatim>\<open>catch\<close> writes the reason and overwrites the cache entry, and the
  variables assigned before the exception keep their values.
\<close>

definition checkHolding ::
  "Env \<Rightarrow> World \<Rightarrow> BookRow \<Rightarrow> jsstring option \<Rightarrow> nat \<Rightarrow> message
     \<Rightarrow> (World \<times> ExistsMark \<times> jsstring option \<times> message) option" where
  "checkHolding env w row isbn candidates reason0 =
     (if \<not> truthy isbn then Some (w, Absent, None, reason0)
      else
        let isbn13' = orEmpty isbn;
            (cachedSearch, c1) = getSearch (toLowerCase env) (cache w) (school row) isbn13' in
        case cachedSearch of
          Some cached \<Rightarrow>
            Some (w\<lparr>cache := c1\<rparr>,
                  (if sExists cached then Present else Absent),
                  sMatchedSchool cached,
                  (case sError cached of
                     Some m \<Rightarrow> if m \<noteq> NoReason then m else reason0
                   | None \<Rightarrow> reason0))
        | None \<Rightarrow>
            (case searchISBNMultiRegion (read365Fetch env) isbn13' None 6 of
               None \<Rightarrow> None
             | Some (res, asked) \<Rightarrow>
                 let r = findSchoolBooks (toLowerCase env) (mrBooks res) (school row);
                     exists = length (found r) > 0;
                     mark = (if exists then Present else Absent);
                     matched = matchedSchool r;
                     c2 = setSearch (toLowerCase env) c1 (school row) isbn13' exists
                            (length (found r)) matched None;
                     w2 = w\<lparr>read365Log := read365Log w @ map (Pair isbn13') asked\<rparr>
                 in
                 if exists
                 then (case matchedSchools r of
                         None \<Rightarrow>
                           Some (w2\<lparr>cache := setSearch (toLowerCase env) c2 (school row) isbn13'
                                                False 0 None
                                                (Some (Read365Error UndefinedLength))\<rparr>,
                                 mark, matched, Read365Error UndefinedLength)
                       | Some names \<Rightarrow>
                           Some (w2\<lparr>cache := c2\<rparr>, mark, matched,
                                 (if length names > 1
                                  then SameNameSchools (length names) names else reason0)))
                 else
                   Some (w2\<lparr>cache := c2\<rparr>, mark, matched,
                         (if mrTotalCount res = 0 then NoBooksInRegions
                          else NotAtSchool (school row) (mrTotalCount res)
                                 (if candidates > 1 then Some candidates else None)))))"

text \<open>One pass of the loop body up to \<^verbatim>\<open>results.push\<close>: the new state and the result row.\<close>

definition processRow :: "Env \<Rightarrow> jsstring \<Rightarrow> World \<Rightarrow> BookRow \<Rightarrow> (World \<times> ResultRow) option" where
  "processRow env ttbKey w row =
     (let (w1, isbn, candidates, reason1) = resolveIsbn env ttbKey w row in
      case checkHolding env w1 row isbn candidates reason1 of
        None \<Rightarrow> None
      | Some (w2, mark, matched, reason2) \<Rightarrow>
          Some (w2,
                \<lparr>rSchool = school row, rTitle = title row, rAuthor = author row,
                 rPublisher = publisher row,
                 ISBN13 = orEmpty isbn,
                 searchSchool = (if truthy matched then orEmpty matched else school row),
                 existsMark = mark,
                 reason = reason2\<rparr>))"

text \<open>
  The \<^verbatim>\<open>for\<close> loop of \<^verbatim>\<open>processVerification\<close>, over the rows still to do; \<open>n\<close> is
  \<^verbatim>\<open>inputData.length\<close> and \<open>i\<close> the index of the first of these rows. After each row the
  job is updated and stored. \<open>None\<close> is a loop that never returns, because a catalog
  search of one of the rows does not.
\<close>

fun processLoop ::
  "Env \<Rightarrow> jsstring \<Rightarrow> nat \<Rightarrow> BookRow list \<Rightarrow> nat \<Rightarrow> World \<times> Job \<times> ResultRow list
     \<Rightarrow> (World \<times> Job \<times> ResultRow list) option" where
  "processLoop env ttbKey n [] i s = Some s"
| "processLoop env ttbKey n (row # todo) i (w, job, done) =
     (case processRow env ttbKey w row of
        None \<Rightarrow> None
      | Some (w1, out) \<Rightarrow>
          let done1 = done @ [out];
              job1 = job\<lparr>progress := i + 1,
                        jobMessage := ProgressMessage (i + 1) n (take 20 (title row)),
                        results := done1\<rparr>
          in processLoop env ttbKey n todo (i + 1) (setJob job1 w1, job1, done1))"

text \<open>The statements after the loop: the job is completed and gets its result file.\<close>

definition complete :: "Job \<Rightarrow> ResultRow list \<Rightarrow> Job" where
  "complete job done =
     job\<lparr>status := Completed,
         jobMessage := DoneMessage (length (inputData job)),
         resultFile := Some (js ''result_'' @ jobId job),
         results := done\<rparr>"

definition processVerification :: "Env \<Rightarrow> World \<Rightarrow> jsstring \<Rightarrow> jsstring \<Rightarrow> World option" where
  "processVerification env w j ttbKey =
     (case getJob w j of
        None \<Rightarrow> Some w
      | Some job \<Rightarrow>
          (case processLoop env ttbKey (length (inputData job)) (inputData job) 0 (w, job, []) of
             None \<Rightarrow> None
           | Some (w1, job1, done) \<Rightarrow> Some (setJob (complete job1 done) w1)))"

text \<open>
  The POST handler up to the start of the background task: status 404 without the
  uploaded file, 500 without the resolver key, otherwise the new job, created running and
  stored. \<open>newId\<close> is the identifier drawn for the job; the defaults of region and school
  level are the Korean words for Gyeonggi and primary school.
\<close>

definition startJob ::
  "World \<Rightarrow> jsstring \<Rightarrow> jsstring option \<Rightarrow> jsstring option \<Rightarrow> jsstring option \<Rightarrow> jsstring
     \<Rightarrow> nat + World \<times> Job" where
  "startJob w file ttbKey region' level newId =
     (case getUploadedFile w file of
        None \<Rightarrow> Inl 404
      | Some uploaded \<Rightarrow>
          if \<not> truthy ttbKey then Inl 500
          else
            let job = \<lparr>jobId = newId, status = Running, progress = 0,
                       total = totalRows uploaded, jobMessage = StartMessage,
                       resultFile = None, inputData = fileData uploaded, results = [],
                       region = (if truthy region' then orEmpty region' else [44221, 44592]),
                       schoolLevel = (if truthy level then orEmpty level
                                      else [52488, 46321, 54617, 44368])\<rparr>
            in Inr (setJob job w, job))"

text \<open>
  The handler of a rejected \<^verbatim>\<open>processVerification\<close>: the stored job becomes failed.
\<close>

definition onRejected :: "World \<Rightarrow> jsstring \<Rightarrow> jserror \<Rightarrow> World" where
  "onRejected w j err =
     (case getJob w j of
        None \<Rightarrow> w
      | Some job \<Rightarrow> setJob (job\<lparr>status := Failed, jobMessage := ErrorMessage err\<rparr>) w)"

section \<open>Notions of the specification\<close>

text \<open>The white space of ECMAScript, code unit by code unit: the white space and the line ends.\<close>

definition whiteSpaceUnits :: "nat list" where
  "whiteSpaceUnits =
     [9, 10, 11, 12, 13, 32, 160, 5760, 8192, 8193, 8194, 8195, 8196, 8197, 8198, 8199, 8200,
      8201, 8202, 8232, 8233, 8239, 8287, 12288, 65279]"

text \<open>
  The specification's normal form of a name: every white space unit taken out, then lower
  case.
\<close>

definition normalizedName :: "lowercase \<Rightarrow> jsstring \<Rightarrow> jsstring" where
  "normalizedName lc s = lc (filter (\<lambda>c. c \<notin> set whiteSpaceUnits) s)"

text \<open>
  What is known of the lower-casing of the language on the strings of ASCII letters and
  Hangul syllables: A to Z become a to z, unit by unit, and nothing else changes.
\<close>

definition lowerAscii :: "nat \<Rightarrow> nat" where
  "lowerAscii c = (if 65 \<le> c \<and> c \<le> 90 then c + 32 else c)"

definition plain :: "jsstring \<Rightarrow> bool" where
  "plain s \<longleftrightarrow> list_all (\<lambda>c. c < 128 \<or> (44032 \<le> c \<and> c \<le> 55203)) s"

definition plainCase :: "lowercase \<Rightarrow> bool" where
  "plainCase lc \<longleftrightarrow> (\<forall>s. plain s \<longrightarrow> lc s = map lowerAscii s)"

text \<open>
  Two plain strings that differ only in case and white space: they are the same once the
  white space is taken out and A to Z are lower case.
\<close>

definition sameLetters :: "jsstring \<Rightarrow> jsstring \<Rightarrow> bool" where
  "sameLetters s t \<longleftrightarrow>
     plain s \<and> plain t \<and> map lowerAscii (removeSpaces s) = map lowerAscii (removeSpaces t)"

text \<open>A blank string: empty, or white space only.\<close>

definition blank :: "jsstring \<Rightarrow> bool" where
  "blank s \<longleftrightarrow> list_all isSpace s"


text \<open>The books one region contributes: those of its search, none when the search threw.\<close>

definition regionBooks :: "read365fetch \<Rightarrow> jsstring \<Rightarrow> provcode \<Rightarrow> Read365Book list" where
  "regionBooks fetch isbn regionCode =
     (case searchISBNAllPages fetch isbn (Some regionCode) of
        Some (asked, Inr bs) \<Rightarrow> bs
      | _ \<Rightarrow> [])"

text \<open>The books of one page: those of the response, none when the request threw.\<close>

definition pageBooks :: "read365fetch \<Rightarrow> jsstring \<Rightarrow> provcode option \<Rightarrow> nat \<Rightarrow> Read365Book list" where
  "pageBooks fetch isbn prov pg =
     (case searchISBN fetch isbn prov pg 100 of Inr r \<Rightarrow> books r | Inl e \<Rightarrow> [])"

text \<open>
  A catalog whose responses all report at most \<open>T\<close> pages, whatever the request: the
  searches of such a catalog return.
\<close>

definition boundedCatalog :: "read365fetch \<Rightarrow> int \<Rightarrow> bool" where
  "boundedCatalog fetch T \<longleftrightarrow>
     (\<forall>isbn prov p r. searchISBN fetch isbn prov p 100 = Inr r \<longrightarrow> totalPages r \<le> T)"

text \<open>
  The invariant of a job: the progress is within the total, and the job has a result file
  exactly when it is completed.
\<close>

definition jobInvariant :: "Job \<Rightarrow> bool" where
  "jobInvariant j \<longleftrightarrow> progress j \<le> total j \<and> (resultFile j \<noteq> None \<longleftrightarrow> status j = Completed)"

text \<open>
  A status and one that may be observed later: the status stays, or moves from pending
  to any other, or from running to completed or failed.
\<close>

fun forward :: "JobStatus \<Rightarrow> JobStatus \<Rightarrow> bool" where
  "forward Pending s = True"
| "forward Running s = (s = Running \<or> s = Completed \<or> s = Failed)"
| "forward Completed s = (s = Completed)"
| "forward Failed s = (s = Failed)"

text \<open>
  Every stored file records the number of its rows. The upload route is the only writer
  of the files and keeps this.
\<close>

definition filesCounted :: "World \<Rightarrow> bool" where
  "filesCounted w \<longleftrightarrow> list_all (\<lambda>(i, f). totalRows f = length (fileData f)) (uploadedFiles w)"

section \<open>Sample services and inputs\<close>

text \<open>A catalog that knows no book: every response is OK with no books and no pages.\<close>

definition emptyCatalog :: read365fetch where
  "emptyCatalog payload =
     Inr \<lparr>ok = True, httpStatus = 200,
          json = Inr \<lparr>apiStatus = js ''OK'',
                      apiData = Some \<lparr>allTotalCount = Some 0, totalPage = Some 0,
                                      bookList = Some []\<rparr>\<rparr>\<rparr>"

text \<open>A book entry of which only the school is known.\<close>

definition bookOf :: "jsstring \<Rightarrow> Read365Book" where
  "bookOf name =
     \<lparr>bookTitle = None, bookAuthor = None, schoolName = Some name, provName = None,
      bookIsbn = None\<rparr>"

text \<open>
  A catalog of two pages with one book each, whatever the ISBN and the region: the last
  page, page 2 of 2, is not empty.
\<close>

definition twoPageCatalog :: read365fetch where
  "twoPageCatalog payload =
     Inr \<lparr>ok = True, httpStatus = 200,
          json = Inr \<lparr>apiStatus = js ''OK'',
                      apiData =
                        Some \<lparr>allTotalCount = Some 2, totalPage = Some 2,
                              bookList =
                                Some (if page payload = None then [bookOf (js ''A'')]
                                      else if page payload = Some 2 then [bookOf (js ''B'')]
                                      else [])\<rparr>\<rparr>\<rparr>"

text \<open>
  A catalog where the region \<^verbatim>\<open>C10\<close> does not answer (the fetch is rejected) and every
  other region has one book of the school \<^verbatim>\<open>A\<close>, on one page.
\<close>

definition brokenRegionCatalog :: read365fetch where
  "brokenRegionCatalog payload =
     (if provCode payload = Some (ProvString (js ''C10'')) then Inl (Thrown (js ''fetch failed''))
      else Inr \<lparr>ok = True, httpStatus = 200,
                json = Inr \<lparr>apiStatus = js ''OK'',
                            apiData = Some \<lparr>allTotalCount = Some 1, totalPage = Some 1,
                                            bookList = Some [bookOf (js ''A'')]\<rparr>\<rparr>\<rparr>)"

text \<open>
  A catalog where only the region \<^verbatim>\<open>B10\<close> holds the book, at two schools whose names both
  contain "Jungang".
\<close>

definition jungangCatalog :: read365fetch where
  "jungangCatalog payload =
     Inr \<lparr>ok = True, httpStatus = 200,
          json = Inr \<lparr>apiStatus = js ''OK'',
                      apiData =
                        (if provCode payload = Some (ProvString (js ''B10''))
                         then Some \<lparr>allTotalCount = Some 2, totalPage = Some 1,
                                    bookList = Some [bookOf (js ''Seoul Jungang''),
                                                     bookOf (js ''Busan Jungang'')]\<rparr>
                         else Some \<lparr>allTotalCount = Some 0, totalPage = Some 0,
                                    bookList = Some []\<rparr>)\<rparr>\<rparr>"

text \<open>
  A resolver that knows one book, "Momo" by Ende, is unreachable for the query "Down", and
  has no result for any other query.
\<close>

definition momoShop :: aladinfetch where
  "momoShop params =
     (if Query params = js ''Down'' then Inl (Thrown (js ''fetch failed''))
      else Inr \<lparr>ok = True, httpStatus = 200,
                json = Inr \<lparr>item =
                  (if Query params = js ''Momo''
                   then Some [\<lparr>abTitle = Some (js ''Momo''), abAuthor = Some (js ''Ende''),
                               abIsbn13 = Some (js ''9788936434120''), abPublisher = None\<rparr>]
                   else Some [])\<rparr>\<rparr>)"

text \<open>A stand-in for the similarity of the library: 100 for equal strings, 0 otherwise.\<close>

definition exactRatio :: "jsstring \<Rightarrow> jsstring \<Rightarrow> nat" where
  "exactRatio a b = (if a = b then 100 else 0)"

text \<open>
  A stand-in for the lower-casing of the language, which it agrees with on plain strings,
  and one for the weighing: the weighted sum in exact arithmetic.
\<close>

definition sampleLower :: lowercase where
  "sampleLower s = map lowerAscii s"

definition sampleWeigh :: weighing where
  "sampleWeigh t a = 7 / 10 * (of_nat t / 100) + 3 / 10 * (of_nat a / 100)"

text \<open>The sample resolver, similarity, lower-casing and weighing, with a catalog.\<close>

definition sampleEnv :: "read365fetch \<Rightarrow> Env" where
  "sampleEnv catalog =
     \<lparr>toLowerCase = sampleLower, weightedScore = sampleWeigh, tokenSetRatio = exactRatio,
      aladinFetch = momoShop, read365Fetch = catalog\<rparr>"

text \<open>The state of a process that has just started.\<close>

definition newWorld :: World where
  "newWorld = \<lparr>cache = newCache, jobs = [], uploadedFiles = [], aladinLog = [], read365Log = []\<rparr>"

text \<open>An input row of a school, a title and an author, with no publisher.\<close>

definition rowOf :: "string \<Rightarrow> string \<Rightarrow> string \<Rightarrow> BookRow" where
  "rowOf s t a = \<lparr>school = js s, title = js t, author = js a, publisher = []\<rparr>"

text \<open>A job as the POST handler creates it, for the rows given.\<close>

definition jobOf :: "BookRow list \<Rightarrow> Job" where
  "jobOf input =
     \<lparr>jobId = js ''job1'', status = Running, progress = 0, total = length input,
      jobMessage = StartMessage, resultFile = None, inputData = input, results = [],
      region = [44221, 44592], schoolLevel = [52488, 46321, 54617, 44368]\<rparr>"



section \<open>Pagination\<close>

lemma allPagesLoop_bounded:
  assumes bound: "\<forall>p r. searchISBN fetch isbn prov p 100 = Inr r \<longrightarrow> totalPages r \<le> T"
  shows "\<exists>n out. allPagesLoop fetch isbn prov bs p asked = Some (asked @ [p..<Suc n], out)
           \<and> p \<le> n \<and> int n \<le> max (int p) T
           \<and> (\<forall>q. p \<le> q \<and> q < n \<longrightarrow>
                 (\<exists>r. searchISBN fetch isbn prov q 100 = Inr r \<and> books r \<noteq> [] \<and> int q < totalPages r))
           \<and> (case searchISBN fetch isbn prov n 100 of
                 Inl e \<Rightarrow> out = Inl e
               | Inr r \<Rightarrow> (books r = [] \<or> int n \<ge> totalPages r)
                          \<and> out = Inr (bs @ concat (map (pageBooks fetch isbn prov) [p..<Suc n])))"
proof (induction "nat T - p" arbitrary: p bs asked rule: less_induct)
  case less
  show ?case
  proof (cases "searchISBN fetch isbn prov p 100")
    case (Inl e)
    then have "allPagesLoop fetch isbn prov bs p asked = Some (asked @ [p..<Suc p], Inl e)"
      by (subst allPagesLoop.simps) simp
    with Inl show ?thesis by (intro exI [of _ p]) auto
  next
    case (Inr r)
    show ?thesis
    proof (cases "books r = [] \<or> int p \<ge> totalPages r")
      case True
      then have "allPagesLoop fetch isbn prov bs p asked = Some (asked @ [p..<Suc p], Inr (bs @ books r))"
        using Inr by (subst allPagesLoop.simps) auto
      with Inr True show ?thesis
        by (intro exI [of _ p] exI [of _ "Inr (bs @ books r)"]) (auto simp: pageBooks_def)
    next
      case False
      then have lt: "int p < totalPages r" and ne: "books r \<noteq> []" by auto
      from bound Inr have "totalPages r \<le> T" by blast
      with lt have "nat T - Suc p < nat T - p" by linarith
      from less [OF this, of "bs @ books r" "asked @ [p]"]
      obtain n out where
        run: "allPagesLoop fetch isbn prov (bs @ books r) (Suc p) (asked @ [p])
                = Some ((asked @ [p]) @ [Suc p..<Suc n], out)"
        and ge: "Suc p \<le> n" and le: "int n \<le> max (int (Suc p)) T"
        and before: "\<forall>q. Suc p \<le> q \<and> q < n \<longrightarrow>
                 (\<exists>r. searchISBN fetch isbn prov q 100 = Inr r \<and> books r \<noteq> [] \<and> int q < totalPages r)"
        and last: "(case searchISBN fetch isbn prov n 100 of
                 Inl e \<Rightarrow> out = Inl e
               | Inr r' \<Rightarrow> (books r' = [] \<or> int n \<ge> totalPages r')
                          \<and> out = Inr ((bs @ books r) @ concat (map (pageBooks fetch isbn prov) [Suc p..<Suc n])))"
        by blast
      have upt: "[p..<Suc n] = p # [Suc p..<Suc n]"
        using ge by (simp add: upt_conv_Cons)
      have "allPagesLoop fetch isbn prov bs p asked = Some (asked @ [p..<Suc n], out)"
        using Inr False run upt by (subst allPagesLoop.simps) simp
      moreover have "p \<le> n" using ge by simp
      moreover have "int n \<le> max (int p) T"
        using le lt \<open>totalPages r \<le> T\<close> by linarith
      moreover have "\<forall>q. p \<le> q \<and> q < n \<longrightarrow>
                 (\<exists>r. searchISBN fetch isbn prov q 100 = Inr r \<and> books r \<noteq> [] \<and> int q < totalPages r)"
      proof (intro allI impI)
        fix q assume q: "p \<le> q \<and> q < n"
        show "\<exists>r. searchISBN fetch isbn prov q 100 = Inr r \<and> books r \<noteq> [] \<and> int q < totalPages r"
        proof (cases "q = p")
          case True
          with Inr lt ne show ?thesis by simp
        next
          case False
          with q have "Suc p \<le> q \<and> q < n" by simp
          with before show ?thesis by blast
        qed
      qed
      moreover have "(case searchISBN fetch isbn prov n 100 of
                 Inl e \<Rightarrow> out = Inl e
               | Inr r' \<Rightarrow> (books r' = [] \<or> int n \<ge> totalPages r')
                          \<and> out = Inr (bs @ concat (map (pageBooks fetch isbn prov) [p..<Suc n])))"
        using last Inr upt by (auto simp: pageBooks_def split: sum.splits)
      ultimately show ?thesis by blast
    qed
  qed
qed

lemma twoPageCatalog_pages:
  "searchISBN twoPageCatalog isbn prov p 100 = Inr r \<Longrightarrow> totalPages r = 2"
  by (auto simp: searchISBN_def twoPageCatalog_def orZero_def js_def Let_def split: if_splits)

lemma twoPageCatalog_run:
  "searchISBNAllPages twoPageCatalog isbn prov = Some ([1, 2], Inr [bookOf (js ''A''), bookOf (js ''B'')])"
  by (simp add: searchISBNAllPages_def allPagesLoop.simps searchISBN_def twoPageCatalog_def
        orZero_def js_def)

text \<open>
  Claim C3, as the code has it. Let every response of the catalog for this ISBN and region
  report at most \<open>T\<close> pages. Then \<^verbatim>\<open>searchISBNAllPages\<close> returns, after asking for the pages
  1 to \<open>n\<close> in this order and each once, where \<open>n\<close> is at most \<open>T\<close>, or 1 when \<open>T\<close> is
  smaller: the first page is always asked for. Every page before the last was answered
  with books and with a page total above its number; the last page threw, or was empty,
  or its number had reached the total reported with it. A last page that is not empty is
  part of the result.
\<close>

theorem searchISBNAllPages_stops:
  assumes "\<forall>p r. searchISBN fetch isbn prov p 100 = Inr r \<longrightarrow> totalPages r \<le> T"
  shows "\<exists>n out. searchISBNAllPages fetch isbn prov = Some ([1..<Suc n], out)
           \<and> 1 \<le> n \<and> int n \<le> max 1 T
           \<and> (\<forall>q. 1 \<le> q \<and> q < n \<longrightarrow>
                 (\<exists>r. searchISBN fetch isbn prov q 100 = Inr r \<and> books r \<noteq> [] \<and> int q < totalPages r))
           \<and> (case searchISBN fetch isbn prov n 100 of
                 Inl e \<Rightarrow> out = Inl e
               | Inr r \<Rightarrow> (books r = [] \<or> int n \<ge> totalPages r)
                          \<and> out = Inr (concat (map (pageBooks fetch isbn prov) [1..<Suc n])))"
  unfolding searchISBNAllPages_def
  using allPagesLoop_bounded [OF assms, of "[]" 1 "[]"]
  by (simp only: append_Nil of_nat_1)

theorem searchISBNAllPages_stops_witness:
  "searchISBNAllPages twoPageCatalog (js ''9788936434120'') None
       = Some ([1, 2], Inr [bookOf (js ''A''), bookOf (js ''B'')])
   \<and> (\<exists>n out. searchISBNAllPages twoPageCatalog (js ''9788936434120'') None = Some ([1..<Suc n], out)
           \<and> 1 \<le> n \<and> int n \<le> max 1 2)"
proof -
  have h: "\<forall>p r. searchISBN twoPageCatalog (js ''9788936434120'') None p 100 = Inr r \<longrightarrow> totalPages r \<le> 2"
    using twoPageCatalog_pages by fastforce
  from searchISBNAllPages_stops [OF h]
  have "\<exists>n out. searchISBNAllPages twoPageCatalog (js ''9788936434120'') None = Some ([1..<Suc n], out)
           \<and> 1 \<le> n \<and> int n \<le> max 1 2"
    by blast
  with twoPageCatalog_run show ?thesis by blast
qed

text \<open>
  Claim C3 as it is written fails for a catalog that reports no pages at all: page 1,
  which is page \<open>totalPages + 1\<close>, is asked for, one request where \<open>totalPages\<close> is 0.
\<close>

theorem searchISBNAllPages_counterexample:
  "searchISBN emptyCatalog (js ''9788936434120'') None 1 100
       = Inr \<lparr>totalCount = 0, totalPages = 0, books = []\<rparr>
   \<and> searchISBNAllPages emptyCatalog (js ''9788936434120'') None = Some ([0 + 1], Inr [])"
  by (simp add: searchISBNAllPages_def allPagesLoop.simps searchISBN_def emptyCatalog_def
        orZero_def js_def)

section \<open>School-name matching\<close>

lemma includes_sublist: "includes_js a b \<longleftrightarrow> sublist b a"
  by (induction a) (simp_all add: sublist_Cons_right)

lemma isSpace_whiteSpaceUnits: "isSpace c \<longleftrightarrow> c \<in> set whiteSpaceUnits"
  unfolding isSpace_def whiteSpaceUnits_def by (simp only: list.set insert_iff empty_iff) arith

lemma removeSpaces_whiteSpaceUnits:
  "removeSpaces s = filter (\<lambda>c. c \<notin> set whiteSpaceUnits) s"
  by (simp add: removeSpaces_def isSpace_whiteSpaceUnits)

lemma plain_removeSpaces: "plain s \<Longrightarrow> plain (removeSpaces s)"
  by (simp add: plain_def removeSpaces_def list_all_iff)

lemma plainCase_sampleLower: "plainCase sampleLower"
  by (simp add: plainCase_def sampleLower_def)

lemma matches_plain:
  assumes "plainCase lc" and "plain a" and "plain b"
  shows "schoolNameMatches lc a b \<longleftrightarrow>
     sublist (map lowerAscii (removeSpaces a)) (map lowerAscii (removeSpaces b))
     \<or> sublist (map lowerAscii (removeSpaces b)) (map lowerAscii (removeSpaces a))"
proof -
  from assms have "lc (removeSpaces a) = map lowerAscii (removeSpaces a)"
    and "lc (removeSpaces b) = map lowerAscii (removeSpaces b)"
    by (simp_all add: plainCase_def plain_removeSpaces)
  then show ?thesis
    by (auto simp: schoolNameMatches_def includes_sublist Let_def)
qed

lemma matches_example:
  "plainCase lc \<Longrightarrow> schoolNameMatches lc (js ''OO Elementary School'') (js ''OOElementarySchool'')"
  by (subst matches_plain)
     (simp_all add: plain_def js_def removeSpaces_def isSpace_def lowerAscii_def)

lemma matches_not_example:
  "plainCase lc \<Longrightarrow> \<not> schoolNameMatches lc (js ''Central Elementary'') (js ''North Elementary'')"
  by (subst matches_plain)
     (simp_all add: plain_def js_def removeSpaces_def isSpace_def lowerAscii_def
        sublist_Cons_right)

text \<open>
  Claim C7. Whatever the lower-casing \<open>lc\<close> of the language is, the test of
  \<^verbatim>\<open>findSchoolBooks\<close> holds for two names exactly when, with every white space unit taken
  out and then in lower case, one of them is a contiguous part of the other. For plain
  names, of ASCII characters and Hangul syllables, where lower case is known to be A to Z
  turned into a to z, the test is that containment of the names without their white space
  and with these letters turned. It holds for "OO Elementary School" and
  "OOElementarySchool" and fails for "Central Elementary" and "North Elementary".
\<close>

theorem schoolNameMatches_iff:
  "(schoolNameMatches lc a b \<longleftrightarrow>
      sublist (normalizedName lc a) (normalizedName lc b)
      \<or> sublist (normalizedName lc b) (normalizedName lc a))
   \<and> (plainCase lc \<and> plain a \<and> plain b \<longrightarrow>
        (schoolNameMatches lc a b \<longleftrightarrow>
           sublist (map lowerAscii (filter (\<lambda>c. c \<notin> set whiteSpaceUnits) a))
                   (map lowerAscii (filter (\<lambda>c. c \<notin> set whiteSpaceUnits) b))
           \<or> sublist (map lowerAscii (filter (\<lambda>c. c \<notin> set whiteSpaceUnits) b))
                     (map lowerAscii (filter (\<lambda>c. c \<notin> set whiteSpaceUnits) a))))
   \<and> (plainCase lc \<longrightarrow>
        schoolNameMatches lc (js ''OO Elementary School'') (js ''OOElementarySchool'')
        \<and> \<not> schoolNameMatches lc (js ''Central Elementary'') (js ''North Elementary''))"
proof (intro conjI impI)
  show "schoolNameMatches lc a b \<longleftrightarrow>
      sublist (normalizedName lc a) (normalizedName lc b)
      \<or> sublist (normalizedName lc b) (normalizedName lc a)"
    by (auto simp: schoolNameMatches_def normalizedName_def includes_sublist Let_def
          removeSpaces_whiteSpaceUnits)
  show "schoolNameMatches lc a b \<longleftrightarrow>
           sublist (map lowerAscii (filter (\<lambda>c. c \<notin> set whiteSpaceUnits) a))
                   (map lowerAscii (filter (\<lambda>c. c \<notin> set whiteSpaceUnits) b))
           \<or> sublist (map lowerAscii (filter (\<lambda>c. c \<notin> set whiteSpaceUnits) b))
                     (map lowerAscii (filter (\<lambda>c. c \<notin> set whiteSpaceUnits) a))"
    if "plainCase lc \<and> plain a \<and> plain b"
    using that matches_plain [of lc a b] by (simp add: removeSpaces_whiteSpaceUnits)
  show "schoolNameMatches lc (js ''OO Elementary School'') (js ''OOElementarySchool'')"
    if "plainCase lc"
    using that by (rule matches_example)
  show "\<not> schoolNameMatches lc (js ''Central Elementary'') (js ''North Elementary'')"
    if "plainCase lc"
    using that by (rule matches_not_example)
qed

theorem schoolNameMatches_iff_witness:
  "schoolNameMatches sampleLower (js ''Han Bit'') (js ''hanbit elementary'')
   \<and> sublist (normalizedName sampleLower (js ''Han Bit''))
       (normalizedName sampleLower (js ''hanbit elementary''))
   \<and> normalizedName sampleLower (js ''Han Bit'') = js ''hanbit''
   \<and> schoolNameMatches sampleLower (js ''OO Elementary School'') (js ''OOElementarySchool'')
   \<and> \<not> schoolNameMatches sampleLower (js ''Central Elementary'') (js ''North Elementary'')
   \<and> \<not> sublist (map lowerAscii (filter (\<lambda>c. c \<notin> set whiteSpaceUnits) (js ''Central Elementary'')))
         (map lowerAscii (filter (\<lambda>c. c \<notin> set whiteSpaceUnits) (js ''North Elementary'')))"
proof -
  let ?a = "js ''Han Bit''" and ?b = "js ''hanbit elementary''"
  let ?c = "js ''Central Elementary''" and ?d = "js ''North Elementary''"
  have n: "normalizedName sampleLower ?a = js ''hanbit''"
    by (simp add: normalizedName_def whiteSpaceUnits_def sampleLower_def lowerAscii_def js_def)
  have s: "sublist (normalizedName sampleLower ?a) (normalizedName sampleLower ?b)"
    by (simp add: normalizedName_def whiteSpaceUnits_def sampleLower_def lowerAscii_def js_def
          sublist_Cons_right)
  have p: "plain ?c" "plain ?d" by (simp_all add: plain_def js_def)
  note ab = schoolNameMatches_iff [of sampleLower ?a ?b]
  note cd = schoolNameMatches_iff [of sampleLower ?c ?d]
  from ab s have "schoolNameMatches sampleLower ?a ?b" by blast
  moreover from cd plainCase_sampleLower
  have ex: "schoolNameMatches sampleLower (js ''OO Elementary School'') (js ''OOElementarySchool'')"
    "\<not> schoolNameMatches sampleLower ?c ?d"
    by blast+
  moreover from cd plainCase_sampleLower p ex(2)
  have "\<not> sublist (map lowerAscii (filter (\<lambda>c. c \<notin> set whiteSpaceUnits) ?c))
         (map lowerAscii (filter (\<lambda>c. c \<notin> set whiteSpaceUnits) ?d))"
    by blast
  ultimately show ?thesis using n s by blast
qed

section \<open>The multi-region search\<close>

lemma regionLoop_count:
  "regionLoop fetch isbn rs acc = Some (res, asked) \<Longrightarrow>
   mrTotalCount (fst acc) = length (mrBooks (fst acc)) \<Longrightarrow> mrTotalCount res = length (mrBooks res)"
proof (induction rs arbitrary: acc)
  case Nil
  then show ?case by simp
next
  case (Cons r rs)
  then show ?case
    by (auto split: option.splits sum.splits prod.splits)
qed









lemma allPagesLoop_asked:
  assumes "allPagesLoop fetch isbn prov bs p asked0 = Some y"
  shows "p \<in> set (fst y) \<and> set asked0 \<subseteq> set (fst y)"
  using assms
proof (induction fetch isbn prov bs p asked0 y rule: allPagesLoop.raw_induct [rotated 1, consumes 1, case_names 1])
  case (1 loop fetch isbn prov bs p asked0 y)
  note IH = "1"(1) and body = "1"(2)
  show ?case
  proof (cases "searchISBN fetch isbn prov p 100")
    case (Inl e)
    with body show ?thesis by auto
  next
    case (Inr r)
    show ?thesis
    proof (cases "books r = [] \<or> totalPages r \<le> int p")
      case True
      with Inr body show ?thesis by (auto split: if_splits)
    next
      case False
      with Inr body have "loop fetch isbn prov (bs @ books r) (p + 1) (asked0 @ [p]) = Some y"
        by simp
      from IH [OF this] show ?thesis by simp
    qed
  qed
qed

lemma searchISBNAllPages_first:
  "searchISBNAllPages fetch isbn prov = Some (asked, out) \<Longrightarrow> 1 \<in> set asked"
  using allPagesLoop_asked [of fetch isbn prov "[]" 1 "[]" "(asked, out)"]
  by (simp add: searchISBNAllPages_def)

lemma regionLoop_books:
  "\<forall>r\<in>set rs. searchISBNAllPages fetch isbn (Some r) \<noteq> None \<Longrightarrow>
   \<exists>res asked. regionLoop fetch isbn rs acc = Some (res, asked)
      \<and> mrBooks res = mrBooks (fst acc) @ concat (map (regionBooks fetch isbn) rs)
      \<and> set (snd acc) \<subseteq> set asked
      \<and> (\<forall>r\<in>set rs. (r, 1) \<in> set asked)"
proof (induction rs arbitrary: acc)
  case Nil
  then show ?case by (cases acc) simp
next
  case (Cons r rs)
  then obtain pages out where run: "searchISBNAllPages fetch isbn (Some r) = Some (pages, out)"
    by fastforce
  define acc1 where "acc1 =
    (case out of
       Inr bs \<Rightarrow> (\<lparr>mrTotalCount = mrTotalCount (fst acc) + length bs,
                    mrBooks = mrBooks (fst acc) @ bs\<rparr>,
                  snd acc @ map (Pair r) pages)
     | Inl e \<Rightarrow> (fst acc, snd acc @ map (Pair r) pages))"
  have step: "regionLoop fetch isbn (r # rs) acc = regionLoop fetch isbn rs acc1"
    using run by (simp add: acc1_def)
  have books1: "mrBooks (fst acc1) = mrBooks (fst acc) @ regionBooks fetch isbn r"
    using run by (simp add: acc1_def regionBooks_def split: sum.splits)
  have asked1: "set (snd acc) \<subseteq> set (snd acc1)" "(r, 1) \<in> set (snd acc1)"
    using searchISBNAllPages_first [OF run] by (auto simp: acc1_def split: sum.splits)
  from Cons.prems have "\<forall>r\<in>set rs. searchISBNAllPages fetch isbn (Some r) \<noteq> None" by simp
  from Cons.IH [OF this, of acc1]
  obtain res asked where
    "regionLoop fetch isbn rs acc1 = Some (res, asked)"
    "mrBooks res = mrBooks (fst acc1) @ concat (map (regionBooks fetch isbn) rs)"
    "set (snd acc1) \<subseteq> set asked" "\<forall>r\<in>set rs. (r, 1) \<in> set asked"
    by blast
  with step books1 asked1 show ?case
    by (intro exI [of _ res] exI [of _ asked]) auto
qed



lemma regions_default:
  "searchRegionsOf None 6
     = map (\<lambda>r. Code (js r)) [''B10'', ''C10'', ''D10'', ''E10'', ''F10'', ''G10'']"
  by (simp add: searchRegionsOf_def MAJOR_REGION_CODES_def js_def)


lemma brokenRegionCatalog_run:
  "searchISBNAllPages brokenRegionCatalog isbn (Some (Code c)) =
     (if c = [67, 49, 48] then Some ([1], Inl (Thrown (js ''fetch failed'')))
      else Some ([1], Inr [bookOf (js ''A'')]))"
  by (simp add: searchISBNAllPages_def allPagesLoop.simps searchISBN_def brokenRegionCatalog_def
        truthyProv_def stringifyProv_def orZero_def js_def)



text \<open>
  Claim C10. The total count that \<^verbatim>\<open>searchISBNMultiRegion\<close> returns is the number of books
  it returns. The count in the reason "not at <school> (other schools hold <n>)" of a
  holding that is not in the cache is therefore the number of books fetched from the
  first six major regions, none of which matched the school.
\<close>

theorem totalCount_is_number_of_books:
  "(searchISBNMultiRegion fetch isbn primary m = Some (res, asked) \<longrightarrow>
      mrTotalCount res = length (mrBooks res))
   \<and> (checkHolding env w row isbn' cands reason0 = Some (w', mark, matched, NotAtSchool s n c)
        \<and> truthy isbn'
        \<and> map_of (searchCache (cache w)) (makeSearchKey (toLowerCase env) (school row) (orEmpty isbn')) = None \<longrightarrow>
      (\<exists>res' asked'. searchISBNMultiRegion (read365Fetch env) (orEmpty isbn') None 6 = Some (res', asked')
         \<and> n = length (mrBooks res') \<and> s = school row
         \<and> found (findSchoolBooks (toLowerCase env) (mrBooks res') (school row)) = []
         \<and> length (searchRegionsOf None 6) = 6))"
proof (intro conjI impI)
  show "mrTotalCount res = length (mrBooks res)"
    if "searchISBNMultiRegion fetch isbn primary m = Some (res, asked)"
    using regionLoop_count [of fetch isbn _ "(\<lparr>mrTotalCount = 0, mrBooks = []\<rparr>, [])" res asked] that
    by (simp add: searchISBNMultiRegion_def)
next
  assume a: "checkHolding env w row isbn' cands reason0 = Some (w', mark, matched, NotAtSchool s n c)
        \<and> truthy isbn'
        \<and> map_of (searchCache (cache w)) (makeSearchKey (toLowerCase env) (school row) (orEmpty isbn')) = None"
  then obtain res' asked' where
    run: "searchISBNMultiRegion (read365Fetch env) (orEmpty isbn') None 6 = Some (res', asked')"
    by (auto simp: checkHolding_def getSearch_def Let_def split: option.splits)
  have cnt: "mrTotalCount res' = length (mrBooks res')"
    using regionLoop_count [of _ _ _ "(\<lparr>mrTotalCount = 0, mrBooks = []\<rparr>, [])" res' asked'] run
    by (simp add: searchISBNMultiRegion_def)
  from a run have "n = mrTotalCount res' \<and> s = school row
      \<and> found (findSchoolBooks (toLowerCase env) (mrBooks res') (school row)) = []"
    by (auto simp: checkHolding_def getSearch_def Let_def matchedSchools_def split: if_splits)
  with run cnt show "\<exists>res' asked'. searchISBNMultiRegion (read365Fetch env) (orEmpty isbn') None 6 = Some (res', asked')
         \<and> n = length (mrBooks res') \<and> s = school row
         \<and> found (findSchoolBooks (toLowerCase env) (mrBooks res') (school row)) = []
         \<and> length (searchRegionsOf None 6) = 6"
    by (simp add: regions_default)
qed

lemma brokenRegionCatalog_multi:
  "searchISBNMultiRegion brokenRegionCatalog isbn None 6 =
     Some (\<lparr>mrTotalCount = 5,
            mrBooks = [bookOf (js ''A''), bookOf (js ''A''), bookOf (js ''A''), bookOf (js ''A''),
                       bookOf (js ''A'')]\<rparr>,
           map (\<lambda>r. (Code (js r), 1)) [''B10'', ''C10'', ''D10'', ''E10'', ''F10'', ''G10''])"
  by (simp add: searchISBNMultiRegion_def regions_default brokenRegionCatalog_run js_def)

lemma jungangCatalog_run:
  "searchISBNAllPages jungangCatalog isbn (Some (Code c)) =
     (if c = [66, 49, 48] then Some ([1], Inr [bookOf (js ''Seoul Jungang''), bookOf (js ''Busan Jungang'')])
      else Some ([1], Inr []))"
  by (simp add: searchISBNAllPages_def allPagesLoop.simps searchISBN_def jungangCatalog_def
        truthyProv_def stringifyProv_def orZero_def js_def)

lemma jungangCatalog_multi:
  "searchISBNMultiRegion jungangCatalog isbn None 6 =
     Some (\<lparr>mrTotalCount = 2,
            mrBooks = [bookOf (js ''Seoul Jungang''), bookOf (js ''Busan Jungang'')]\<rparr>,
           map (\<lambda>r. (Code (js r), 1)) [''B10'', ''C10'', ''D10'', ''E10'', ''F10'', ''G10''])"
  by (simp add: searchISBNMultiRegion_def regions_default jungangCatalog_run js_def)

lemma find_none:
  "findSchoolBooks sampleLower [bookOf (js ''A''), bookOf (js ''A''), bookOf (js ''A''), bookOf (js ''A''),
                       bookOf (js ''A'')] (js ''Z'') = \<lparr>found = [], matchedSchool = None\<rparr>"
  by (simp add: findSchoolBooks_def bookOf_def orEmpty_def schoolNameMatches_def js_def
        removeSpaces_def sampleLower_def lowerAscii_def isSpace_def Let_def)

lemma find_jungang:
  "findSchoolBooks sampleLower [bookOf (js ''Seoul Jungang''), bookOf (js ''Busan Jungang'')] (js ''Jungang'')
     = \<lparr>found = [bookOf (js ''Seoul Jungang''), bookOf (js ''Busan Jungang'')],
        matchedSchool = Some (js ''Seoul Jungang'')\<rparr>"
  by (simp add: findSchoolBooks_def bookOf_def orEmpty_def schoolNameMatches_def js_def
        removeSpaces_def sampleLower_def lowerAscii_def isSpace_def Let_def)

lemma js_not_empty: "js (c # cs) \<noteq> []"
  by (simp add: js_def)

lemma threshold06_le [simp]: "threshold06 \<le> 1"
  by (simp add: threshold06_def)

lemma momo_found:
  "threshold \<le> 1 \<Longrightarrow>
   searchISBNByTitleAuthor momoShop exactRatio sampleWeigh k (js ''Momo'') (js ''Ende'') threshold
     = ([\<lparr>TTBKey = k, Query = js ''Momo''\<rparr>],
        Inr \<lparr>isbn13 = Some (js ''9788936434120''), error = None, candidateCount = 1\<rparr>)"
  by (simp add: searchISBNByTitleAuthor_def momoShop_def exactRatio_def sampleWeigh_def
        normalizeTitle_def candidateScore_def orEmpty_def trim_def replacePunct_def isPunct_def isOpen_def isClose_def
        isSpace_def js_def Let_def)

section \<open>The cache operations\<close>

lemma setISBN_searchCache [simp]: "searchCache (setISBN lc c t a i e) = searchCache c"
  by (simp add: setISBN_def Let_def)

lemma setISBN_isbnCache [simp]:
  "map_of (isbnCache (setISBN lc c t a i e))
     = (map_of (isbnCache c))(makeISBNKey lc t a \<mapsto> \<lparr>cIsbn13 = i, cError = e\<rparr>)"
  by (simp add: setISBN_def Let_def update_conv')

lemma setSearch_isbnCache [simp]: "isbnCache (setSearch lc c s i ex n m e) = isbnCache c"
  by (simp add: setSearch_def Let_def)

lemma setSearch_searchCache [simp]:
  "map_of (searchCache (setSearch lc c s i ex n m e))
     = (map_of (searchCache c))(makeSearchKey lc s i \<mapsto>
          \<lparr>sExists = ex, itemCount = n, sMatchedSchool = m, sError = e\<rparr>)"
  by (simp add: setSearch_def Let_def update_conv')

lemma getISBN_result [simp]:
  "fst (getISBN lc c t a) = map_of (isbnCache c) (makeISBNKey lc t a)"
  by (simp add: getISBN_def split: option.splits)

lemma getISBN_caches [simp]:
  "isbnCache (snd (getISBN lc c t a)) = isbnCache c"
  "searchCache (snd (getISBN lc c t a)) = searchCache c"
  by (simp_all add: getISBN_def split: option.splits)

lemma getSearch_result [simp]:
  "fst (getSearch lc c s i) = map_of (searchCache c) (makeSearchKey lc s i)"
  by (simp add: getSearch_def split: option.splits)

lemma getSearch_caches [simp]:
  "isbnCache (snd (getSearch lc c s i)) = isbnCache c"
  "searchCache (snd (getSearch lc c s i)) = searchCache c"
  by (simp_all add: getSearch_def split: option.splits)

lemma holding_not_at_school:
  "\<exists>w'. checkHolding (sampleEnv brokenRegionCatalog) newWorld (rowOf ''Z'' ''Momo'' ''Ende'')
          (Some (js ''9788936434120'')) 1 NoReason
       = Some (w', Absent, None, NotAtSchool (js ''Z'') 5 None)"
  by (simp add: checkHolding_def truthy_def orEmpty_def getSearch_def newWorld_def newCache_def
        sampleEnv_def rowOf_def brokenRegionCatalog_multi find_none js_not_empty Let_def)

theorem totalCount_is_number_of_books_witness:
  "(\<exists>res asked. searchISBNMultiRegion brokenRegionCatalog (js ''9788936434120'') None 6 = Some (res, asked)
       \<and> mrTotalCount res = length (mrBooks res) \<and> length (mrBooks res) = 5)
   \<and> (\<exists>w' res' asked'.
         checkHolding (sampleEnv brokenRegionCatalog) newWorld (rowOf ''Z'' ''Momo'' ''Ende'')
            (Some (js ''9788936434120'')) 1 NoReason
           = Some (w', Absent, None, NotAtSchool (js ''Z'') 5 None)
         \<and> searchISBNMultiRegion brokenRegionCatalog (js ''9788936434120'') None 6 = Some (res', asked')
         \<and> 5 = length (mrBooks res'))"
proof -
  let ?i = "js ''9788936434120''"
  let ?env = "sampleEnv brokenRegionCatalog"
  let ?row = "rowOf ''Z'' ''Momo'' ''Ende''"
  obtain res asked where run: "searchISBNMultiRegion brokenRegionCatalog ?i None 6 = Some (res, asked)"
    and five: "length (mrBooks res) = 5"
    by (simp add: brokenRegionCatalog_multi)
  obtain w' where hold: "checkHolding ?env newWorld ?row (Some ?i) 1 NoReason
       = Some (w', Absent, None, NotAtSchool (js ''Z'') 5 None)"
    using holding_not_at_school by blast
  have miss: "map_of (searchCache (cache newWorld))
                (makeSearchKey (toLowerCase ?env) (school ?row) (orEmpty (Some ?i))) = None"
    by (simp add: newWorld_def newCache_def)
  have t: "truthy (Some ?i)" by (simp add: truthy_def js_not_empty)
  note inst = totalCount_is_number_of_books
    [of brokenRegionCatalog ?i None 6 res asked ?env newWorld ?row "Some ?i" 1 NoReason
        w' Absent None "js ''Z''" 5 None]
  from inst run have "mrTotalCount res = length (mrBooks res)" by blast
  moreover from inst hold t miss
  have "\<exists>res' asked'. searchISBNMultiRegion (read365Fetch ?env) (orEmpty (Some ?i)) None 6 = Some (res', asked')
         \<and> 5 = length (mrBooks res')"
    by blast
  then have "\<exists>res' asked'. searchISBNMultiRegion brokenRegionCatalog ?i None 6 = Some (res', asked')
         \<and> 5 = length (mrBooks res')"
    by (simp add: sampleEnv_def orEmpty_def)
  ultimately show ?thesis using run five hold by blast
qed

section \<open>The reason of a holding that exists\<close>

text \<open>
  Claim C1 does not hold of the code. For every row whose ISBN is resolved and whose
  holding is not in the cache: when the school is found among the holders,
  \<^verbatim>\<open>processVerification\<close> reads the length of a \<^verbatim>\<open>matchedSchools\<close> that
  \<^verbatim>\<open>findSchoolBooks\<close> does not return. The reason of the row is then the error of the
  catalog search with that exception, however many names matched, and the cache entry is
  overwritten by one that says the holding does not exist.
\<close>

theorem found_holding_reason:
  assumes "checkHolding env w row isbn cands reason0 = Some (w', mark, matched, rsn)"
    and "truthy isbn"
    and "map_of (searchCache (cache w)) (makeSearchKey (toLowerCase env) (school row) (orEmpty isbn)) = None"
    and "mark = Present"
  shows "rsn = Read365Error UndefinedLength
     \<and> map_of (searchCache (cache w')) (makeSearchKey (toLowerCase env) (school row) (orEmpty isbn))
         = Some \<lparr>sExists = False, itemCount = 0, sMatchedSchool = None,
                 sError = Some (Read365Error UndefinedLength)\<rparr>"
  using assms
  by (auto simp: checkHolding_def getSearch_def setSearch_def Let_def matchedSchools_def
        update_conv' split: option.splits if_splits)

lemma jungang_row:
  "\<exists>w'. processRow (sampleEnv jungangCatalog) (js ''key'') newWorld (rowOf ''Jungang'' ''Momo'' ''Ende'')
     = Some (w', \<lparr>rSchool = js ''Jungang'', rTitle = js ''Momo'', rAuthor = js ''Ende'',
                  rPublisher = [], ISBN13 = js ''9788936434120'',
                  searchSchool = js ''Seoul Jungang'', existsMark = Present,
                  reason = Read365Error UndefinedLength\<rparr>)"
  by (simp add: processRow_def resolveIsbn_def checkHolding_def truthy_def orEmpty_def
        newWorld_def newCache_def sampleEnv_def rowOf_def momo_found
        jungangCatalog_multi find_jungang matchedSchools_def js_not_empty split_beta Let_def)

lemma jungang_holding:
  "\<exists>w'. checkHolding (sampleEnv jungangCatalog) newWorld (rowOf ''Jungang'' ''Momo'' ''Ende'')
          (Some (js ''9788936434120'')) 1 NoReason
       = Some (w', Present, Some (js ''Seoul Jungang''), Read365Error UndefinedLength)"
  by (simp add: checkHolding_def truthy_def orEmpty_def getSearch_def newWorld_def newCache_def
        sampleEnv_def rowOf_def jungangCatalog_multi find_jungang matchedSchools_def js_not_empty
        Let_def)

theorem found_holding_reason_witness:
  "\<exists>w'. checkHolding (sampleEnv jungangCatalog) newWorld (rowOf ''Jungang'' ''Momo'' ''Ende'')
          (Some (js ''9788936434120'')) 1 NoReason
       = Some (w', Present, Some (js ''Seoul Jungang''), Read365Error UndefinedLength)
     \<and> map_of (searchCache (cache w')) (makeSearchKey sampleLower (js ''Jungang'') (js ''9788936434120''))
         = Some \<lparr>sExists = False, itemCount = 0, sMatchedSchool = None,
                 sError = Some (Read365Error UndefinedLength)\<rparr>"
proof -
  let ?i = "js ''9788936434120''"
  let ?row = "rowOf ''Jungang'' ''Momo'' ''Ende''"
  obtain w' where hold: "checkHolding (sampleEnv jungangCatalog) newWorld ?row (Some ?i) 1 NoReason
       = Some (w', Present, Some (js ''Seoul Jungang''), Read365Error UndefinedLength)"
    using jungang_holding by blast
  have miss: "map_of (searchCache (cache newWorld))
                (makeSearchKey (toLowerCase (sampleEnv jungangCatalog)) (school ?row) (orEmpty (Some ?i)))
              = None"
    by (simp add: newWorld_def newCache_def)
  have t: "truthy (Some ?i)" by (simp add: truthy_def js_not_empty)
  from found_holding_reason [OF hold t miss]
  have "map_of (searchCache (cache w'))
          (makeSearchKey (toLowerCase (sampleEnv jungangCatalog)) (school ?row) (orEmpty (Some ?i)))
         = Some \<lparr>sExists = False, itemCount = 0, sMatchedSchool = None,
                 sError = Some (Read365Error UndefinedLength)\<rparr>"
    by simp
  then have "map_of (searchCache (cache w')) (makeSearchKey sampleLower (js ''Jungang'') ?i)
         = Some \<lparr>sExists = False, itemCount = 0, sMatchedSchool = None,
                 sError = Some (Read365Error UndefinedLength)\<rparr>"
    by (simp add: rowOf_def orEmpty_def sampleEnv_def)
  with hold show ?thesis by blast
qed

section \<open>The resolver and the empty title\<close>

text \<open>
  Claim C2, as the code has it. For the empty title \<^verbatim>\<open>searchISBNByTitleAuthor\<close> sends no
  request and returns no ISBN, the error "empty title" and no candidate. For every other
  title, one of white space only too, it sends exactly one request, with the normalised
  title as the query.
\<close>

theorem empty_title_no_request:
  "searchISBNByTitleAuthor fetch ratio weigh ttbKey [] author' threshold
     = ([], Inr \<lparr>isbn13 = None, error = Some EmptyTitle, candidateCount = 0\<rparr>)
   \<and> (title' \<noteq> [] \<longrightarrow>
        fst (searchISBNByTitleAuthor fetch ratio weigh ttbKey title' author' threshold)
          = [\<lparr>TTBKey = ttbKey, Query = normalizeTitle title'\<rparr>])"
  by (simp add: searchISBNByTitleAuthor_def Let_def)

theorem empty_title_no_request_witness:
  "fst (searchISBNByTitleAuthor momoShop exactRatio sampleWeigh (js ''key'') (js ''Momo'') (js ''Ende'') threshold06)
     = [\<lparr>TTBKey = js ''key'', Query = js ''Momo''\<rparr>]"
proof -
  have "js ''Momo'' \<noteq> []" by (simp add: js_def)
  moreover have "normalizeTitle (js ''Momo'') = js ''Momo''"
    by (simp add: normalizeTitle_def trim_def replacePunct_def isPunct_def isOpen_def isClose_def
          isSpace_def js_def)
  ultimately show ?thesis
    using empty_title_no_request [of momoShop exactRatio sampleWeigh "js ''key''" "js ''Ende''" threshold06 "js ''Momo''"]
    by simp
qed

text \<open>
  Claim C2 as it is written fails for a blank title that is not empty: for the title of
  one space a request is sent, with the empty query, and the error is the one of the
  response, here "no search result".
\<close>

theorem blank_title_counterexample:
  "blank (js '' '')
   \<and> searchISBNByTitleAuthor momoShop exactRatio sampleWeigh (js ''key'') (js '' '') [] threshold06
       = ([\<lparr>TTBKey = js ''key'', Query = []\<rparr>],
          Inr \<lparr>isbn13 = None, error = Some NoSearchResults, candidateCount = 0\<rparr>)"
  by (simp add: blank_def searchISBNByTitleAuthor_def momoShop_def normalizeTitle_def trim_def
        replacePunct_def isPunct_def isOpen_def isClose_def isSpace_def js_def Let_def)

section \<open>The job through a run\<close>

lemma getJob_setJob [simp]: "jobId job = j \<Longrightarrow> getJob (setJob job w) j = Some job"
  by (auto simp: getJob_def setJob_def update_conv')

lemma setJob_fields [simp]:
  "cache (setJob job w) = cache w"
  "uploadedFiles (setJob job w) = uploadedFiles w"
  "aladinLog (setJob job w) = aladinLog w"
  "read365Log (setJob job w) = read365Log w"
  by (simp_all add: setJob_def)

lemma resolveIsbn_frame:
  "resolveIsbn env key w row = (w1, isbn, cands, rsn) \<Longrightarrow>
   jobs w1 = jobs w \<and> uploadedFiles w1 = uploadedFiles w"
  by (auto simp: resolveIsbn_def split_beta Let_def split: option.splits sum.splits prod.splits)

lemma checkHolding_frame:
  "checkHolding env w row isbn cands rsn = Some (w1, mark, matched, rsn1) \<Longrightarrow>
   jobs w1 = jobs w \<and> uploadedFiles w1 = uploadedFiles w \<and> aladinLog w1 = aladinLog w
   \<and> isbnCache (cache w1) = isbnCache (cache w)"
  by (auto simp: checkHolding_def split_beta Let_def matchedSchools_def
        split: option.splits if_splits)

lemma processRow_frame:
  assumes "processRow env key w row = Some (w1, out)"
  shows "jobs w1 = jobs w \<and> uploadedFiles w1 = uploadedFiles w"
proof -
  obtain wa isbn cands rsn where r: "resolveIsbn env key w row = (wa, isbn, cands, rsn)"
    by (cases "resolveIsbn env key w row") auto
  with assms obtain mark matched rsn1 where
    "checkHolding env wa row isbn cands rsn = Some (w1, mark, matched, rsn1)"
    by (auto simp: processRow_def split: option.splits)
  with resolveIsbn_frame [OF r] checkHolding_frame show ?thesis by metis
qed

lemma processLoop_job:
  "processLoop env key n todo i (w, job, done) = Some (w', job', done') \<Longrightarrow>
   getJob w (jobId job) = Some job \<Longrightarrow>
   status job' = status job \<and> resultFile job' = resultFile job \<and> total job' = total job
   \<and> jobId job' = jobId job \<and> inputData job' = inputData job
   \<and> progress job' = (if todo = [] then progress job else i + length todo)
   \<and> getJob w' (jobId job) = Some job'
   \<and> uploadedFiles w' = uploadedFiles w
   \<and> length done' = length done + length todo"
proof (induction todo arbitrary: i w job "done")
  case Nil
  then show ?case by simp
next
  case (Cons row todo)
  from Cons.prems(1) obtain w1 out where
    row: "processRow env key w row = Some (w1, out)"
    by (auto split: option.splits)
  define job1 where "job1 = job\<lparr>progress := i + 1,
                        jobMessage := ProgressMessage (i + 1) n (take 20 (title row)),
                        results := done @ [out]\<rparr>"
  from Cons.prems(1) row have
    rest: "processLoop env key n todo (i + 1) (setJob job1 w1, job1, done @ [out]) = Some (w', job', done')"
    by (simp add: job1_def Let_def)
  have stored: "getJob (setJob job1 w1) (jobId job1) = Some job1" by simp
  from Cons.IH [OF rest stored] processRow_frame [OF row] show ?case
    by (auto simp: job1_def)
qed

lemma startJob_job:
  assumes "filesCounted w" and "startJob w file ttb region' level newId = Inr (w0, job0)"
  shows "status job0 = Running \<and> resultFile job0 = None \<and> progress job0 = 0
     \<and> total job0 = length (inputData job0) \<and> jobId job0 = newId
     \<and> getJob w0 newId = Some job0 \<and> uploadedFiles w0 = uploadedFiles w"
proof -
  from assms(2) obtain uploaded where up: "getUploadedFile w file = Some uploaded"
    by (auto simp: startJob_def split: option.splits)
  then have "(file, uploaded) \<in> set (uploadedFiles w)"
    by (simp add: getUploadedFile_def map_of_SomeD)
  with assms(1) have "totalRows uploaded = length (fileData uploaded)"
    by (auto simp: filesCounted_def list_all_iff)
  with assms(2) up show ?thesis
    by (auto simp: startJob_def Let_def split: if_splits)
qed

lemma set_update_subset: "set (AList.update k v al) \<subseteq> insert (k, v) (set al)"
  by (induction al) auto

lemma filesCounted_upload:
  assumes "filesCounted w" and "upload w newId name parsed = Inr w'"
  shows "filesCounted w'"
proof -
  let ?f = "\<lparr>fileId = newId, filename = name, fileData = parsed, totalRows = length parsed\<rparr>"
  from assms(2) have "uploadedFiles w' = AList.update newId ?f (uploadedFiles w)"
    by (auto simp: upload_def setUploadedFile_def split: if_splits)
  then have "set (uploadedFiles w') \<subseteq> insert (newId, ?f) (set (uploadedFiles w))"
    using set_update_subset by metis
  with assms(1) show ?thesis
    by (auto simp: filesCounted_def list_all_iff)
qed

lemma filesCounted_newWorld: "filesCounted newWorld"
  by (simp add: filesCounted_def newWorld_def)

text \<open>
  Claim C4. Let the job \<open>job0\<close> be created by the POST handler in a state whose files
  record their numbers of rows, and let \<open>jobk\<close> be the job after the loop has gone through
  the first \<open>k\<close> rows. Both satisfy the invariant and are running, and \<open>jobk\<close> is what
  the store holds, with the progress \<open>k\<close>. When \<^verbatim>\<open>processVerification\<close> returns, the
  stored job satisfies the invariant, is completed, its status is later than the one of
  \<open>jobk\<close>, and its progress is the total. When the handler of a rejection runs after the
  \<open>k\<close> rows instead, the stored job satisfies the invariant and is failed.
\<close>

theorem job_invariants:
  assumes "filesCounted w"
    and "startJob w file ttb region' level newId = Inr (w0, job0)"
    and "processLoop env key (length (inputData job0)) (take k (inputData job0)) 0 (w0, job0, [])
           = Some (wk, jobk, done)"
  shows "jobInvariant job0 \<and> jobInvariant jobk
     \<and> status job0 = Running \<and> status jobk = Running
     \<and> forward (status job0) (status jobk)
     \<and> progress jobk = min k (length (inputData job0))
     \<and> getJob wk newId = Some jobk
     \<and> (\<forall>w'. processVerification env w0 newId key = Some w' \<longrightarrow>
          (\<exists>final. getJob w' newId = Some final \<and> jobInvariant final
             \<and> forward (status jobk) (status final)
             \<and> status final = Completed \<and> progress final = total final))
     \<and> (\<exists>failed. getJob (onRejected wk newId err) newId = Some failed \<and> jobInvariant failed
             \<and> forward (status jobk) (status failed) \<and> status failed = Failed)"
proof -
  note s = startJob_job [OF assms(1,2)]
  from s have stored: "getJob w0 (jobId job0) = Some job0" by simp
  note l = processLoop_job [OF assms(3) stored]
  have inv0: "jobInvariant job0" using s by (simp add: jobInvariant_def)
  have invk: "jobInvariant jobk" using s l by (auto simp: jobInvariant_def)
  have fw: "forward (status job0) (status jobk)" using s l by simp
  have run0: "status job0 = Running" and runk: "status jobk = Running" using s l by simp_all
  have pk: "progress jobk = min k (length (inputData job0))" using s l by auto
  have gk: "getJob wk newId = Some jobk" using s l by simp
  have fin: "\<exists>final. getJob w' newId = Some final \<and> jobInvariant final
             \<and> forward (status jobk) (status final)
             \<and> status final = Completed \<and> progress final = total final"
    if run: "processVerification env w0 newId key = Some w'" for w'
  proof -
    from run s obtain w1 job1 done1 where
      loop: "processLoop env key (length (inputData job0)) (inputData job0) 0 (w0, job0, []) = Some (w1, job1, done1)"
      and w': "w' = setJob (complete job1 done1) w1"
      by (auto simp: processVerification_def split: option.splits)
    note l1 = processLoop_job [OF loop stored]
    have "jobId (complete job1 done1) = newId" using l1 s by (simp add: complete_def)
    then have "getJob w' newId = Some (complete job1 done1)"
      unfolding w' by simp
    moreover have "jobInvariant (complete job1 done1)"
      using l1 s by (auto simp: jobInvariant_def complete_def)
    moreover have "forward (status jobk) (status (complete job1 done1))"
      using l s by (simp add: complete_def)
    moreover have "status (complete job1 done1) = Completed" by (simp add: complete_def)
    moreover have "progress (complete job1 done1) = total (complete job1 done1)"
      using l1 s by (auto simp: complete_def)
    ultimately show ?thesis by blast
  qed
  let ?failed = "jobk\<lparr>status := Failed, jobMessage := ErrorMessage err\<rparr>"
  have "jobId ?failed = newId" using s l by simp
  then have "getJob (onRejected wk newId err) newId = Some ?failed"
    using gk by (simp add: onRejected_def)
  moreover have "jobInvariant ?failed" using s l by (auto simp: jobInvariant_def)
  moreover have "forward (status jobk) (status ?failed)" using s l by simp
  ultimately have failed: "\<exists>failed. getJob (onRejected wk newId err) newId = Some failed \<and> jobInvariant failed
             \<and> forward (status jobk) (status failed) \<and> status failed = Failed"
    by (intro exI [of _ ?failed]) simp
  from inv0 invk run0 runk fw pk gk fin failed show ?thesis by blast
qed

section \<open>Runs that return\<close>

lemma searchISBNAllPages_total:
  assumes "boundedCatalog fetch T"
  shows "searchISBNAllPages fetch isbn prov \<noteq> None"
proof -
  from assms have "\<forall>p r. searchISBN fetch isbn prov p 100 = Inr r \<longrightarrow> totalPages r \<le> T"
    by (simp add: boundedCatalog_def)
  from allPagesLoop_bounded [OF this, of "[]" 1 "[]"] show ?thesis
    by (auto simp: searchISBNAllPages_def)
qed

lemma searchISBNMultiRegion_total:
  assumes "boundedCatalog fetch T"
  shows "\<exists>res asked. searchISBNMultiRegion fetch isbn primary m = Some (res, asked)"
proof -
  have "\<forall>r\<in>set (searchRegionsOf primary m). searchISBNAllPages fetch isbn (Some r) \<noteq> None"
    using searchISBNAllPages_total [OF assms] by blast
  from regionLoop_books [OF this, of "(\<lparr>mrTotalCount = 0, mrBooks = []\<rparr>, [])"]
  show ?thesis by (auto simp: searchISBNMultiRegion_def)
qed

lemma checkHolding_total:
  assumes "boundedCatalog (read365Fetch env) T"
  shows "\<exists>x. checkHolding env w row isbn cands rsn = Some x"
proof -
  obtain res asked where
    "searchISBNMultiRegion (read365Fetch env) (orEmpty isbn) None 6 = Some (res, asked)"
    using searchISBNMultiRegion_total [OF assms] by blast
  then show ?thesis
    by (simp add: checkHolding_def split_beta Let_def matchedSchools_def split: option.splits)
qed

lemma processRow_total:
  assumes "boundedCatalog (read365Fetch env) T"
  shows "\<exists>w1 out. processRow env key w row = Some (w1, out)"
proof -
  obtain wa isbn cands rsn where r: "resolveIsbn env key w row = (wa, isbn, cands, rsn)"
    by (cases "resolveIsbn env key w row") auto
  obtain x where "checkHolding env wa row isbn cands rsn = Some x"
    using checkHolding_total [OF assms] by blast
  with r show ?thesis
    by (cases x) (simp add: processRow_def)
qed

lemma processLoop_total:
  assumes "boundedCatalog (read365Fetch env) T"
  shows "\<exists>s'. processLoop env key n todo i s = Some s'"
proof (induction todo arbitrary: i s)
  case (Nil i s)
  show ?case by (cases s) simp
next
  case (Cons row todo i s)
  obtain w job "done" where s: "s = (w, job, done)" by (rule prod_cases3)
  obtain w1 out where "processRow env key w row = Some (w1, out)"
    using processRow_total [OF assms] by blast
  with Cons.IH s show ?case by (simp add: Let_def)
qed

lemma brokenRegionCatalog_bounded: "boundedCatalog brokenRegionCatalog 1"
  by (auto simp: boundedCatalog_def searchISBN_def brokenRegionCatalog_def orZero_def Let_def
        split: if_splits)

lemma emptyCatalog_bounded: "boundedCatalog emptyCatalog 0"
  by (auto simp: boundedCatalog_def searchISBN_def emptyCatalog_def orZero_def Let_def
        split: if_splits)

lemma getUploadedFile_setUploadedFile [simp]:
  "fileId f = i \<Longrightarrow> getUploadedFile (setUploadedFile f w) i = Some f"
  by (auto simp: getUploadedFile_def setUploadedFile_def update_conv')

theorem job_invariants_witness:
  "\<exists>w0 wk jobk done.
     startJob (setUploadedFile \<lparr>fileId = js ''file1'', filename = js ''books.xlsx'',
                                fileData = [rowOf ''Z'' ''Momo'' ''Ende''], totalRows = 1\<rparr> newWorld)
         (js ''file1'') (Some (js ''key'')) None None (js ''job1'')
       = Inr (w0, jobOf [rowOf ''Z'' ''Momo'' ''Ende''])
     \<and> processLoop (sampleEnv brokenRegionCatalog) (js ''key'') 1 [rowOf ''Z'' ''Momo'' ''Ende''] 0
           (w0, jobOf [rowOf ''Z'' ''Momo'' ''Ende''], [])
         = Some (wk, jobk, done)
     \<and> jobInvariant jobk \<and> progress jobk = 1 \<and> status jobk = Running
     \<and> getJob wk (js ''job1'') = Some jobk
     \<and> (\<exists>failed. getJob (onRejected wk (js ''job1'') (Thrown (js ''boom''))) (js ''job1'') = Some failed
           \<and> jobInvariant failed \<and> status failed = Failed)"
proof -
  let ?rows = "[rowOf ''Z'' ''Momo'' ''Ende'']"
  let ?f = "\<lparr>fileId = js ''file1'', filename = js ''books.xlsx'', fileData = ?rows, totalRows = 1\<rparr>"
  let ?w = "setUploadedFile ?f newWorld"
  let ?env = "sampleEnv brokenRegionCatalog"
  have up: "upload newWorld (js ''file1'') (js ''books.xlsx'') ?rows = Inr ?w"
    by (simp add: upload_def)
  have files: "filesCounted ?w"
    by (rule filesCounted_upload [OF filesCounted_newWorld up])
  have start: "startJob ?w (js ''file1'') (Some (js ''key'')) None None (js ''job1'')
                 = Inr (setJob (jobOf ?rows) ?w, jobOf ?rows)"
    by (simp add: startJob_def truthy_def js_not_empty jobOf_def Let_def)
  have "boundedCatalog (read365Fetch ?env) 1"
    by (simp add: sampleEnv_def brokenRegionCatalog_bounded)
  from processLoop_total [OF this]
  obtain wk jobk "done" where
    run: "processLoop ?env (js ''key'') 1 ?rows 0 (setJob (jobOf ?rows) ?w, jobOf ?rows, []) = Some (wk, jobk, done)"
    by (metis prod_cases3)
  have input: "inputData (jobOf ?rows) = ?rows" by (simp add: jobOf_def)
  have run': "processLoop ?env (js ''key'') (length (inputData (jobOf ?rows)))
                (take 1 (inputData (jobOf ?rows))) 0 (setJob (jobOf ?rows) ?w, jobOf ?rows, [])
              = Some (wk, jobk, done)"
    using run by (simp add: input)
  note inst = job_invariants [OF files start run', of "Thrown (js ''boom'')"]
  from inst have "jobInvariant jobk" and "progress jobk = 1"
    and "forward (status (jobOf ?rows)) (status jobk)"
    and "getJob wk (js ''job1'') = Some jobk"
    and "\<exists>failed. getJob (onRejected wk (js ''job1'') (Thrown (js ''boom''))) (js ''job1'') = Some failed
           \<and> jobInvariant failed \<and> status failed = Failed"
    by (simp_all add: input) blast
  moreover have "status jobk = Running"
    using processLoop_job [OF run] by (simp add: jobOf_def)
  ultimately show ?thesis using start run by blast
qed

section \<open>The resolver cache\<close>

lemma sent_length: "length (fst (searchISBNByTitleAuthor fetch ratio weigh key t a thr)) \<le> 1"
  by (simp add: searchISBNByTitleAuthor_def Let_def)

lemma resolveIsbn_hit:
  assumes "map_of (isbnCache (cache w)) (makeISBNKey (toLowerCase env) (title row) (author row)) = Some c"
    and "resolveIsbn env key w row = (w1, isbn, cands, rsn)"
  shows "isbn = cIsbn13 c \<and> cands = 0 \<and> aladinLog w1 = aladinLog w
     \<and> isbnCache (cache w1) = isbnCache (cache w) \<and> searchCache (cache w1) = searchCache (cache w)
     \<and> rsn = (case cError c of Some m \<Rightarrow> m | None \<Rightarrow> NoReason)"
  using assms by (auto simp: resolveIsbn_def split_beta split: option.splits)

lemma resolveIsbn_miss:
  assumes "map_of (isbnCache (cache w)) (makeISBNKey (toLowerCase env) (title row) (author row)) = None"
    and "resolveIsbn env key w row = (w1, isbn, cands, rsn)"
  shows "\<exists>e. aladinLog w1 = aladinLog w @ fst (searchISBNByTitleAuthor (aladinFetch env)
                 (tokenSetRatio env) (weightedScore env) key (title row) (author row) threshold06)
     \<and> map_of (isbnCache (cache w1))
         = (map_of (isbnCache (cache w)))(makeISBNKey (toLowerCase env) (title row) (author row)
              \<mapsto> \<lparr>cIsbn13 = isbn, cError = e\<rparr>)
     \<and> searchCache (cache w1) = searchCache (cache w)"
  using assms by (auto simp: resolveIsbn_def split_beta split: option.splits sum.splits prod.splits)

lemma processRow_parts:
  assumes "processRow env key w row = Some (w', out)"
  obtains wa isbn cands rsn mark matched rsn' where
    "resolveIsbn env key w row = (wa, isbn, cands, rsn)"
    "checkHolding env wa row isbn cands rsn = Some (w', mark, matched, rsn')"
    "ISBN13 out = orEmpty isbn" "reason out = rsn'" "existsMark out = mark"
proof -
  obtain wa isbn cands rsn where r: "resolveIsbn env key w row = (wa, isbn, cands, rsn)"
    by (cases "resolveIsbn env key w row") auto
  with assms obtain mark matched rsn' where
    "checkHolding env wa row isbn cands rsn = Some (w', mark, matched, rsn')"
    "ISBN13 out = orEmpty isbn" "reason out = rsn'" "existsMark out = mark"
    by (auto simp: processRow_def split: option.splits)
  with r that show ?thesis by blast
qed

lemma processRow_hit:
  assumes "map_of (isbnCache (cache w)) (makeISBNKey (toLowerCase env) (title row) (author row)) = Some c"
    and "processRow env key w row = Some (w', out)"
  shows "ISBN13 out = orEmpty (cIsbn13 c) \<and> aladinLog w' = aladinLog w
     \<and> isbnCache (cache w') = isbnCache (cache w)"
proof -
  from assms(2) obtain wa isbn cands rsn mark matched rsn' where
    r: "resolveIsbn env key w row = (wa, isbn, cands, rsn)"
    and h: "checkHolding env wa row isbn cands rsn = Some (w', mark, matched, rsn')"
    and o: "ISBN13 out = orEmpty isbn"
    by (rule processRow_parts)
  from resolveIsbn_hit [OF assms(1) r] checkHolding_frame [OF h] o show ?thesis by simp
qed

lemma processRow_miss:
  assumes "map_of (isbnCache (cache w)) (makeISBNKey (toLowerCase env) (title row) (author row)) = None"
    and "processRow env key w row = Some (w', out)"
  shows "\<exists>sent c. length sent \<le> 1 \<and> aladinLog w' = aladinLog w @ sent
     \<and> ISBN13 out = orEmpty (cIsbn13 c)
     \<and> map_of (isbnCache (cache w'))
         = (map_of (isbnCache (cache w)))(makeISBNKey (toLowerCase env) (title row) (author row) \<mapsto> c)"
proof -
  from assms(2) obtain wa isbn cands rsn mark matched rsn' where
    r: "resolveIsbn env key w row = (wa, isbn, cands, rsn)"
    and h: "checkHolding env wa row isbn cands rsn = Some (w', mark, matched, rsn')"
    and o: "ISBN13 out = orEmpty isbn"
    by (rule processRow_parts)
  from resolveIsbn_miss [OF assms(1) r] obtain e where
    "aladinLog wa = aladinLog w @ fst (searchISBNByTitleAuthor (aladinFetch env)
                 (tokenSetRatio env) (weightedScore env) key (title row) (author row) threshold06)"
    "map_of (isbnCache (cache wa))
         = (map_of (isbnCache (cache w)))(makeISBNKey (toLowerCase env) (title row) (author row)
              \<mapsto> \<lparr>cIsbn13 = isbn, cError = e\<rparr>)"
    by blast
  with checkHolding_frame [OF h] o sent_length show ?thesis
    by (intro exI [of _ "fst (searchISBNByTitleAuthor (aladinFetch env)
                 (tokenSetRatio env) (weightedScore env) key (title row) (author row) threshold06)"]
          exI [of _ "\<lparr>cIsbn13 = isbn, cError = e\<rparr>"]) simp
qed

lemma processRow_keeps:
  assumes "map_of (isbnCache (cache w)) k = Some c"
    and "processRow env key w row = Some (w', out)"
  shows "map_of (isbnCache (cache w')) k = Some c"
proof (cases "map_of (isbnCache (cache w)) (makeISBNKey (toLowerCase env) (title row) (author row))")
  case None
  with assms(1) have "k \<noteq> makeISBNKey (toLowerCase env) (title row) (author row)" by auto
  with processRow_miss [OF None assms(2)] assms(1) show ?thesis by auto
next
  case (Some c')
  from processRow_hit [OF Some assms(2)] assms(1) show ?thesis by simp
qed

lemma processLoop_keeps:
  "map_of (isbnCache (cache w)) k = Some c \<Longrightarrow>
   processLoop env key n todo i (w, job, done) = Some (w', job', done') \<Longrightarrow>
   map_of (isbnCache (cache w')) k = Some c"
proof (induction todo arbitrary: i w job "done")
  case Nil
  then show ?case by simp
next
  case (Cons row todo)
  from Cons.prems(2) obtain w1 out where
    row: "processRow env key w row = Some (w1, out)"
    by (auto split: option.splits)
  from processRow_keeps [OF Cons.prems(1) row]
  have "map_of (isbnCache (cache (setJob (job\<lparr>progress := i + 1,
                        jobMessage := ProgressMessage (i + 1) n (take 20 (title row)),
                        results := done @ [out]\<rparr>) w1))) k = Some c"
    by simp
  from Cons.IH [OF this] Cons.prems(2) row show ?case
    by (simp add: Let_def)
qed

lemma processRow_cached:
  assumes "processRow env key w row = Some (w', out)"
  shows "\<exists>c. map_of (isbnCache (cache w')) (makeISBNKey (toLowerCase env) (title row) (author row)) = Some c
     \<and> ISBN13 out = orEmpty (cIsbn13 c)"
proof (cases "map_of (isbnCache (cache w)) (makeISBNKey (toLowerCase env) (title row) (author row))")
  case None
  from processRow_miss [OF None assms] show ?thesis by auto
next
  case (Some c)
  from processRow_hit [OF Some assms] Some show ?thesis by simp
qed

lemma lowerAscii_space [simp]: "isSpace (lowerAscii c) = isSpace c"
  by (auto simp: lowerAscii_def isSpace_def)

lemma normalizeKey_plain:
  "plainCase lc \<Longrightarrow> plain s \<Longrightarrow> normalizeKey lc s = map lowerAscii (removeSpaces s)"
  by (simp add: normalizeKey_def plainCase_def removeSpaces_def filter_map comp_def)

lemma sameLetters_key:
  assumes "plainCase lc" and "sameLetters t1 t2" and "sameLetters a1 a2"
  shows "makeISBNKey lc t2 a2 = makeISBNKey lc t1 a1"
  using assms by (simp add: makeISBNKey_def sameLetters_def normalizeKey_plain)

lemma nothing_found:
  "searchISBNByTitleAuthor momoShop exactRatio sampleWeigh k (js ''Nothing'') (js ''X'') threshold
     = ([\<lparr>TTBKey = k, Query = js ''Nothing''\<rparr>],
        Inr \<lparr>isbn13 = None, error = Some NoSearchResults, candidateCount = 0\<rparr>)"
  by (simp add: searchISBNByTitleAuthor_def momoShop_def normalizeTitle_def
        trim_def replacePunct_def isPunct_def isOpen_def isClose_def isSpace_def js_def Let_def)

text \<open>
  Claim C5, as the code has it. Let two rows have the same cache key: they have the same
  title and the same author, or titles and authors that are plain strings, of ASCII
  characters and Hangul syllables, and the same up to the case of A to Z and white space,
  or any other titles and authors that \<^verbatim>\<open>makeISBNKey\<close> gives one key. When the first has
  been processed, and any rows after it, then processing the second sends no request to
  the resolver, so that the resolver is asked at most once for the pair, by the first row;
  and both rows get the same ISBN.
\<close>

theorem same_pair_resolved_once:
  assumes "(title r2 = title r1 \<and> author r2 = author r1)
      \<or> (plainCase (toLowerCase env) \<and> sameLetters (title r1) (title r2)
           \<and> sameLetters (author r1) (author r2))
      \<or> makeISBNKey (toLowerCase env) (title r2) (author r2)
           = makeISBNKey (toLowerCase env) (title r1) (author r1)"
    and "processRow env key w r1 = Some (w1, out1)"
    and "processLoop env key n between i (w1, job, done) = Some (w2, job', done')"
    and "processRow env key w2 r2 = Some (w3, out2)"
  shows "(\<exists>sent. length sent \<le> 1 \<and> aladinLog w1 = aladinLog w @ sent)
     \<and> aladinLog w3 = aladinLog w2
     \<and> ISBN13 out2 = ISBN13 out1"
proof -
  have k: "makeISBNKey (toLowerCase env) (title r2) (author r2)
             = makeISBNKey (toLowerCase env) (title r1) (author r1)"
    using assms(1) sameLetters_key [of "toLowerCase env" "title r1" "title r2" "author r1" "author r2"]
    by auto
  from processRow_cached [OF assms(2)] obtain c where
    c: "map_of (isbnCache (cache w1)) (makeISBNKey (toLowerCase env) (title r1) (author r1)) = Some c"
    and o1: "ISBN13 out1 = orEmpty (cIsbn13 c)"
    by blast
  from processLoop_keeps [OF c assms(3)]
  have "map_of (isbnCache (cache w2)) (makeISBNKey (toLowerCase env) (title r2) (author r2)) = Some c"
    by (simp add: k)
  from processRow_hit [OF this assms(4)] o1
  have second: "aladinLog w3 = aladinLog w2 \<and> ISBN13 out2 = ISBN13 out1" by simp
  have "\<exists>sent. length sent \<le> 1 \<and> aladinLog w1 = aladinLog w @ sent"
  proof (cases "map_of (isbnCache (cache w)) (makeISBNKey (toLowerCase env) (title r1) (author r1))")
    case None
    from processRow_miss [OF None assms(2)] show ?thesis by blast
  next
    case (Some c')
    from processRow_hit [OF Some assms(2)] show ?thesis by simp
  qed
  with second show ?thesis by blast
qed

theorem same_pair_resolved_once_witness:
  "sameLetters (js ''Momo'') (js ''MO mo'') \<and> sameLetters (js ''Ende'') (js ''ENDE'')
   \<and> (\<exists>w1 out1 w3 out2.
     processRow (sampleEnv brokenRegionCatalog) (js ''key'') newWorld (rowOf ''Z'' ''Momo'' ''Ende'')
       = Some (w1, out1)
     \<and> processRow (sampleEnv brokenRegionCatalog) (js ''key'') w1 (rowOf ''Z'' ''MO mo'' ''ENDE'')
       = Some (w3, out2)
     \<and> aladinLog w3 = aladinLog w1 \<and> ISBN13 out2 = ISBN13 out1)"
proof -
  let ?env = "sampleEnv brokenRegionCatalog"
  let ?r1 = "rowOf ''Z'' ''Momo'' ''Ende''"
  let ?r2 = "rowOf ''Z'' ''MO mo'' ''ENDE''"
  have b: "boundedCatalog (read365Fetch ?env) 1"
    by (simp add: sampleEnv_def brokenRegionCatalog_bounded)
  obtain w1 out1 where p1: "processRow ?env (js ''key'') newWorld ?r1 = Some (w1, out1)"
    using processRow_total [OF b] by blast
  obtain w3 out2 where p2: "processRow ?env (js ''key'') w1 ?r2 = Some (w3, out2)"
    using processRow_total [OF b] by blast
  have t: "sameLetters (js ''Momo'') (js ''MO mo'')"
    by (simp add: sameLetters_def plain_def js_def removeSpaces_def isSpace_def lowerAscii_def)
  have a: "sameLetters (js ''Ende'') (js ''ENDE'')"
    by (simp add: sameLetters_def plain_def js_def removeSpaces_def isSpace_def lowerAscii_def)
  have "plainCase (toLowerCase ?env)"
    by (simp add: sampleEnv_def plainCase_sampleLower)
  with t a have same: "(title ?r2 = title ?r1 \<and> author ?r2 = author ?r1)
      \<or> (plainCase (toLowerCase ?env) \<and> sameLetters (title ?r1) (title ?r2)
           \<and> sameLetters (author ?r1) (author ?r2))
      \<or> makeISBNKey (toLowerCase ?env) (title ?r2) (author ?r2)
           = makeISBNKey (toLowerCase ?env) (title ?r1) (author ?r1)"
    by (simp add: rowOf_def)
  have l: "processLoop ?env (js ''key'') 2 [] 1 (w1, jobOf [], []) = Some (w1, jobOf [], [])"
    by simp
  from same_pair_resolved_once [OF same p1 l p2] p1 p2 t a show ?thesis by blast
qed

text \<open>
  Claim C5 as it is written fails: the second result is not the first. The cache does
  not keep the number of candidates, so a book found among one candidate has one
  candidate the first time and none the second. And a title that the resolver has no
  result for gets the reason "ISBN not confirmed: no search result" in its first row and
  the bare "no search result" of the cache in its second.
\<close>

theorem same_pair_counterexample:
  "snd (resolveIsbn (sampleEnv emptyCatalog) (js ''key'') newWorld (rowOf ''Z'' ''Momo'' ''Ende''))
     = (Some (js ''9788936434120''), 1, NoReason)
   \<and> snd (resolveIsbn (sampleEnv emptyCatalog) (js ''key'')
            (fst (resolveIsbn (sampleEnv emptyCatalog) (js ''key'') newWorld
                    (rowOf ''Z'' ''Momo'' ''Ende'')))
            (rowOf ''Z'' ''Momo'' ''Ende''))
     = (Some (js ''9788936434120''), 0, NoReason)
   \<and> map_option (\<lambda>s. map reason (snd (snd s)))
       (processLoop (sampleEnv emptyCatalog) (js ''key'') 2
          [rowOf ''Z'' ''Nothing'' ''X'', rowOf ''Z'' ''Nothing'' ''X''] 0
          (newWorld, jobOf [rowOf ''Z'' ''Nothing'' ''X'', rowOf ''Z'' ''Nothing'' ''X''], []))
     = Some [IsbnUnconfirmed NoSearchResults, NoSearchResults]"
  by (simp add: processRow_def resolveIsbn_def checkHolding_def truthy_def sampleEnv_def
        rowOf_def nothing_found momo_found newWorld_def newCache_def js_not_empty split_beta
        Let_def)

section \<open>A resolver failure in the middle of a batch\<close>

lemma js_eq [simp]: "js a = js b \<longleftrightarrow> a = b"
  by (simp add: js_def inj_map_eq_map inj_on_def)

lemma down_thrown:
  "searchISBNByTitleAuthor momoShop ratio weigh k (js ''Down'') a threshold
     = ([\<lparr>TTBKey = k, Query = js ''Down''\<rparr>], Inl (Thrown (js ''fetch failed'')))"
  by (simp add: searchISBNByTitleAuthor_def momoShop_def normalizeTitle_def
        trim_def replacePunct_def isPunct_def isOpen_def isClose_def isSpace_def js_def Let_def)

lemma find_z:
  "findSchoolBooks sampleLower [bookOf (js ''Seoul Jungang''), bookOf (js ''Busan Jungang'')] (js ''Z'')
     = \<lparr>found = [], matchedSchool = None\<rparr>"
  by (simp add: findSchoolBooks_def bookOf_def orEmpty_def schoolNameMatches_def js_def
        removeSpaces_def sampleLower_def lowerAscii_def isSpace_def Let_def)

lemma sample_keys:
  "makeISBNKey sampleLower (js ''Momo'') (js ''Ende'') = js ''momo|ende''"
  "makeISBNKey sampleLower (js ''Down'') (js ''X'') = js ''down|x''"
  "makeISBNKey sampleLower (js ''DO wn'') (js ''x'') = js ''down|x''"
  "makeISBNKey sampleLower (js ''Nothing'') (js ''X'') = js ''nothing|x''"
  by (simp_all add: makeISBNKey_def normalizeKey_def removeSpaces_def sampleLower_def
        lowerAscii_def isSpace_def js_def)

text \<open>
  Claim C9 does not hold of the code. Two jobs of three rows whose second row, "Down", is
  one that the fetch of the resolver throws for, on a catalog where two schools of Seoul
  hold the book "Momo". Both jobs are completed with the progress 3; the second row has
  no ISBN, the cross and the reason "Aladin error: fetch failed", and this error is the
  cache entry of its title and author at the end.

  In the first job the school of the first row is among the holders. The row gets the
  check mark, and its reason is the error of the catalog search, the exception of reading
  the length of the \<^verbatim>\<open>matchedSchools\<close> that \<^verbatim>\<open>findSchoolBooks\<close> does not return: the
  first outcome is not a normal one. The third row, of a title without a search result,
  gets its reason as usual.

  In the second job the school of the first row is not among the holders, and the row
  gets the reason "not at Z (other schools hold 2)". The third row has the title and
  author of the second up to case and white space: the resolver is not asked again, the
  requests are the two of the first and second rows, and the row gets the cached error.
\<close>

theorem resolver_failure_batch:
  "(\<exists>w' final.
     processVerification (sampleEnv jungangCatalog)
         (setJob (jobOf [rowOf ''Jungang'' ''Momo'' ''Ende'', rowOf ''Z'' ''Down'' ''X'',
                         rowOf ''Z'' ''Nothing'' ''X'']) newWorld)
         (js ''job1'') (js ''key'')
       = Some w'
     \<and> getJob w' (js ''job1'') = Some final
     \<and> status final = Completed \<and> progress final = 3
     \<and> results final =
         [\<lparr>rSchool = js ''Jungang'', rTitle = js ''Momo'', rAuthor = js ''Ende'',
           rPublisher = [], ISBN13 = js ''9788936434120'',
           searchSchool = js ''Seoul Jungang'', existsMark = Present,
           reason = Read365Error UndefinedLength\<rparr>,
          \<lparr>rSchool = js ''Z'', rTitle = js ''Down'', rAuthor = js ''X'',
           rPublisher = [], ISBN13 = [],
           searchSchool = js ''Z'', existsMark = Absent,
           reason = AladinError (Thrown (js ''fetch failed''))\<rparr>,
          \<lparr>rSchool = js ''Z'', rTitle = js ''Nothing'', rAuthor = js ''X'',
           rPublisher = [], ISBN13 = [],
           searchSchool = js ''Z'', existsMark = Absent,
           reason = IsbnUnconfirmed NoSearchResults\<rparr>]
     \<and> aladinLog w' = [\<lparr>TTBKey = js ''key'', Query = js ''Momo''\<rparr>,
                       \<lparr>TTBKey = js ''key'', Query = js ''Down''\<rparr>,
                       \<lparr>TTBKey = js ''key'', Query = js ''Nothing''\<rparr>]
     \<and> map_of (isbnCache (cache w')) (makeISBNKey sampleLower (js ''Down'') (js ''X''))
         = Some \<lparr>cIsbn13 = None, cError = Some (AladinError (Thrown (js ''fetch failed'')))\<rparr>
     \<and> map_of (searchCache (cache w')) (makeSearchKey sampleLower (js ''Jungang'') (js ''9788936434120''))
         = Some \<lparr>sExists = False, itemCount = 0, sMatchedSchool = None,
                 sError = Some (Read365Error UndefinedLength)\<rparr>)
   \<and> (\<exists>w' final.
     processVerification (sampleEnv jungangCatalog)
         (setJob (jobOf [rowOf ''Z'' ''Momo'' ''Ende'', rowOf ''Z'' ''Down'' ''X'',
                         rowOf ''Z'' ''DO wn'' ''x'']) newWorld)
         (js ''job1'') (js ''key'')
       = Some w'
     \<and> getJob w' (js ''job1'') = Some final
     \<and> status final = Completed \<and> progress final = 3
     \<and> results final =
         [\<lparr>rSchool = js ''Z'', rTitle = js ''Momo'', rAuthor = js ''Ende'',
           rPublisher = [], ISBN13 = js ''9788936434120'',
           searchSchool = js ''Z'', existsMark = Absent,
           reason = NotAtSchool (js ''Z'') 2 None\<rparr>,
          \<lparr>rSchool = js ''Z'', rTitle = js ''Down'', rAuthor = js ''X'',
           rPublisher = [], ISBN13 = [],
           searchSchool = js ''Z'', existsMark = Absent,
           reason = AladinError (Thrown (js ''fetch failed''))\<rparr>,
          \<lparr>rSchool = js ''Z'', rTitle = js ''DO wn'', rAuthor = js ''x'',
           rPublisher = [], ISBN13 = [],
           searchSchool = js ''Z'', existsMark = Absent,
           reason = AladinError (Thrown (js ''fetch failed''))\<rparr>]
     \<and> aladinLog w' = [\<lparr>TTBKey = js ''key'', Query = js ''Momo''\<rparr>,
                       \<lparr>TTBKey = js ''key'', Query = js ''Down''\<rparr>]
     \<and> map_of (isbnCache (cache w')) (makeISBNKey sampleLower (js ''Down'') (js ''X''))
         = Some \<lparr>cIsbn13 = None, cError = Some (AladinError (Thrown (js ''fetch failed'')))\<rparr>)"
proof (intro conjI)
  show "\<exists>w' final.
     processVerification (sampleEnv jungangCatalog)
         (setJob (jobOf [rowOf ''Jungang'' ''Momo'' ''Ende'', rowOf ''Z'' ''Down'' ''X'',
                         rowOf ''Z'' ''Nothing'' ''X'']) newWorld)
         (js ''job1'') (js ''key'')
       = Some w'
     \<and> getJob w' (js ''job1'') = Some final
     \<and> status final = Completed \<and> progress final = 3
     \<and> results final =
         [\<lparr>rSchool = js ''Jungang'', rTitle = js ''Momo'', rAuthor = js ''Ende'',
           rPublisher = [], ISBN13 = js ''9788936434120'',
           searchSchool = js ''Seoul Jungang'', existsMark = Present,
           reason = Read365Error UndefinedLength\<rparr>,
          \<lparr>rSchool = js ''Z'', rTitle = js ''Down'', rAuthor = js ''X'',
           rPublisher = [], ISBN13 = [],
           searchSchool = js ''Z'', existsMark = Absent,
           reason = AladinError (Thrown (js ''fetch failed''))\<rparr>,
          \<lparr>rSchool = js ''Z'', rTitle = js ''Nothing'', rAuthor = js ''X'',
           rPublisher = [], ISBN13 = [],
           searchSchool = js ''Z'', existsMark = Absent,
           reason = IsbnUnconfirmed NoSearchResults\<rparr>]
     \<and> aladinLog w' = [\<lparr>TTBKey = js ''key'', Query = js ''Momo''\<rparr>,
                       \<lparr>TTBKey = js ''key'', Query = js ''Down''\<rparr>,
                       \<lparr>TTBKey = js ''key'', Query = js ''Nothing''\<rparr>]
     \<and> map_of (isbnCache (cache w')) (makeISBNKey sampleLower (js ''Down'') (js ''X''))
         = Some \<lparr>cIsbn13 = None, cError = Some (AladinError (Thrown (js ''fetch failed'')))\<rparr>
     \<and> map_of (searchCache (cache w')) (makeSearchKey sampleLower (js ''Jungang'') (js ''9788936434120''))
         = Some \<lparr>sExists = False, itemCount = 0, sMatchedSchool = None,
                 sError = Some (Read365Error UndefinedLength)\<rparr>"
    by (simp add: processVerification_def complete_def jobOf_def
          processRow_def resolveIsbn_def checkHolding_def truthy_def orEmpty_def sampleEnv_def
          rowOf_def nothing_found momo_found down_thrown jungangCatalog_multi find_jungang
          matchedSchools_def sample_keys
          newWorld_def newCache_def js_not_empty split_beta Let_def)
  show "\<exists>w' final.
     processVerification (sampleEnv jungangCatalog)
         (setJob (jobOf [rowOf ''Z'' ''Momo'' ''Ende'', rowOf ''Z'' ''Down'' ''X'',
                         rowOf ''Z'' ''DO wn'' ''x'']) newWorld)
         (js ''job1'') (js ''key'')
       = Some w'
     \<and> getJob w' (js ''job1'') = Some final
     \<and> status final = Completed \<and> progress final = 3
     \<and> results final =
         [\<lparr>rSchool = js ''Z'', rTitle = js ''Momo'', rAuthor = js ''Ende'',
           rPublisher = [], ISBN13 = js ''9788936434120'',
           searchSchool = js ''Z'', existsMark = Absent,
           reason = NotAtSchool (js ''Z'') 2 None\<rparr>,
          \<lparr>rSchool = js ''Z'', rTitle = js ''Down'', rAuthor = js ''X'',
           rPublisher = [], ISBN13 = [],
           searchSchool = js ''Z'', existsMark = Absent,
           reason = AladinError (Thrown (js ''fetch failed''))\<rparr>,
          \<lparr>rSchool = js ''Z'', rTitle = js ''DO wn'', rAuthor = js ''x'',
           rPublisher = [], ISBN13 = [],
           searchSchool = js ''Z'', existsMark = Absent,
           reason = AladinError (Thrown (js ''fetch failed''))\<rparr>]
     \<and> aladinLog w' = [\<lparr>TTBKey = js ''key'', Query = js ''Momo''\<rparr>,
                       \<lparr>TTBKey = js ''key'', Query = js ''Down''\<rparr>]
     \<and> map_of (isbnCache (cache w')) (makeISBNKey sampleLower (js ''Down'') (js ''X''))
         = Some \<lparr>cIsbn13 = None, cError = Some (AladinError (Thrown (js ''fetch failed'')))\<rparr>"
    by (simp add: processVerification_def complete_def jobOf_def
          processRow_def resolveIsbn_def checkHolding_def truthy_def orEmpty_def sampleEnv_def
          rowOf_def momo_found down_thrown jungangCatalog_multi find_z
          matchedSchools_def sample_keys
          newWorld_def newCache_def js_not_empty split_beta Let_def)
qed

end
